theory Spec2Isabelle
  imports Complex_Main "HOL-Library.Finite_Map"
begin

section \<open>The monitor of ovsdb-etcd (package ovsdb, monitor.go)\<close>

text \<open>
  The development follows \<^verbatim>\<open>monitor.go\<close>: the registry of updaters
  (\<^verbatim>\<open>Key2Updaters\<close>, \<^verbatim>\<open>addUpdaters\<close>, \<^verbatim>\<open>removeUpdaters\<close>), the revision
  checker and \<^verbatim>\<open>notify\<close>, and the updater that turns one etcd event into an OVSDB
  row update (\<^verbatim>\<open>prepareRowUpdate\<close> and the functions below it).

  Conventions of the embedding.
  \<^item> A Go map that is only indexed, stored into and measured is a HOL map; \<^verbatim>\<open>m[k]\<close> on a
    \<^verbatim>\<open>map[string]interface{}\<close> with a missing key is the nil interface, here \<open>JNull\<close>.
  \<^item> Go leaves the order of \<^verbatim>\<open>range\<close> over a map unspecified. Where a loop ranges over a
    map handed in from outside, the map is given as the list of its entries in the order the
    loop visits them; where it ranges over a row built by the code itself
    (\<^verbatim>\<open>compareModifiedRows\<close>), the visiting order is an explicit argument \<open>ord\<close>.
  \<^item> Every \<^verbatim>\<open>return ..., err\<close> is an \<open>Inl\<close>; a nil pointer dereference is the error
    \<open>NilPointer\<close>.
  \<^item> Mutexes, wait groups and logging have no counterpart: every function is modelled as one
    atomic step on the state it locks.
\<close>

subsection \<open>Decoded values\<close>

text \<open>
  What \<^verbatim>\<open>encoding/json\<close> puts into an \<^verbatim>\<open>interface{}\<close>: nil, bool, float64, string,
  \<^verbatim>\<open>[]interface{}\<close> and \<^verbatim>\<open>map[string]interface{}\<close>. \<^verbatim>\<open>reflect.DeepEqual\<close> on such values is
  structural equality, which is HOL equality on this type.
\<close>

datatype json =
    JNull
  | JBool bool
  | JNum real
  | JStr string
  | JArr "json list"
  | JObj "(string, json) fmap"

type_synonym row = "string \<rightharpoonup> json"

text \<open>Indexing a \<^verbatim>\<open>map[string]interface{}\<close>: the zero value (nil) for a missing key.\<close>

definition index :: "row \<Rightarrow> string \<Rightarrow> json" where
  "index m k = (case m k of None \<Rightarrow> JNull | Some v \<Rightarrow> v)"

text \<open>
  The atoms an OVSDB set or map holds once \<^verbatim>\<open>libovsdb\<close> has decoded it.
  \<^verbatim>\<open>OvsSet.GoSet\<close> is a slice of atoms; \<^verbatim>\<open>OvsMap.GoMap\<close> is a Go map from atoms to atoms.
\<close>

datatype atom = AInt int | AReal real | ABool bool | AStr string | AUUID string

type_synonym GoMap = "atom \<rightharpoonup> atom"

text \<open>
  The values a row update carries in its column maps (\<^verbatim>\<open>map[string]interface{}\<close>): a
  decoded JSON value, a \<^verbatim>\<open>*libovsdb.OvsMap\<close> or a \<^verbatim>\<open>*libovsdb.OvsSet\<close>.
\<close>

datatype "value" = JsonV json | OvsMapV GoMap | OvsSetV "atom list"

definition asValues :: "row \<Rightarrow> (string \<rightharpoonup> value)" where
  "asValues data = (\<lambda>column. map_option JsonV (data column))"

datatype error =
    DecodeError
  | MissingUUID
  | WrongUUIDType
  | UUIDChanged string string
  | SchemaLookupError string
  | CannotConvertToMap
  | CannotConvertToSet
  | NilPointer

subsection \<open>Schema, requests, updaters, events\<close>

datatype ExtendedType =
  TypeInteger | TypeReal | TypeBoolean | TypeString | TypeUUID | TypeEnum | TypeSet | TypeMap

text \<open>
  \<^verbatim>\<open>libovsdb.ColumnSchema\<close> is not part of the sources at hand. The code reads its
  \<^verbatim>\<open>Type\<close> and calls its methods \<^verbatim>\<open>UnmarshalMap\<close> and \<^verbatim>\<open>UnmarshalSet\<close>; the two
  methods are taken as parameters carried by the column schema. \<open>None\<close> is their error
  return. A decoded map is given as its entries in the order \<^verbatim>\<open>range\<close> visits them.
\<close>

record ColumnSchema =
  Type :: ExtendedType
  UnmarshalMap :: "json \<Rightarrow> (atom \<times> atom) list option"
  UnmarshalSet :: "json \<Rightarrow> atom list option"

type_synonym TableSchema = "string \<rightharpoonup> ColumnSchema"

text \<open>
  Modelled from the spec: \<^verbatim>\<open>TableSchema.LookupColumn\<close> of libovsdb, which is not in the
  sources: "SchemaLookupError if a column is absent from the schema".
\<close>

definition LookupColumn :: "TableSchema \<Rightarrow> string \<Rightarrow> error + ColumnSchema" where
  "LookupColumn ts column =
     (case ts column of None \<Rightarrow> Inl (SchemaLookupError column) | Some cs \<Rightarrow> Inr cs)"

record MonitorSelect =
  SelectInitial :: "bool option"
  SelectInsert :: "bool option"
  SelectDelete :: "bool option"
  SelectModify :: "bool option"

text \<open>
  Modelled from the spec: \<^verbatim>\<open>libovsdb.MSIsTrue\<close>, which is not in the sources: the flags are
  "tri-state; when the flag is absent, treat as true".
\<close>

definition MSIsTrue :: "bool option \<Rightarrow> bool" where
  "MSIsTrue b = (case b of None \<Rightarrow> True | Some v \<Rightarrow> v)"

text \<open>
  \<^verbatim>\<open>mcrToUpdater\<close>, the only constructor of updaters, replaces a nil \<^verbatim>\<open>Select\<close> by an
  empty one, so the select of an updater is never nil.
\<close>

record MonitorCondRequest =
  Columns :: "string list"
  Where :: "json list option"
  Select :: MonitorSelect

datatype UpdateNotificationType = Update | Update2 | Update3

record updater =
  mcr :: MonitorCondRequest
  tableSchema :: TableSchema
  isV1 :: bool
  notificationType :: UpdateNotificationType
  jasonValueStr :: string

text \<open>
  The bytes of a stored row are represented by what \<^verbatim>\<open>json.Unmarshal\<close> makes of them:
  \<open>None\<close> when it returns an error, the decoded object otherwise.
\<close>

type_synonym bytes = "row option"

record KeyValue =
  Key :: string
  Value :: bytes
  CreateRevision :: int
  ModRevision :: int

datatype EventType = PUT | DELETE

record Event =
  EvType :: EventType
  Kv :: "KeyValue option"
  PrevKv :: "KeyValue option"

text \<open>
  Modelled from the spec: \<^verbatim>\<open>Event.IsCreate\<close> and \<^verbatim>\<open>Event.IsModify\<close> of the etcd client,
  which are not in the sources: an event is "a variant of {Create, Modify, Delete}"; a put
  creates the key when its create revision is its modification revision.
\<close>

definition IsCreate :: "EventType \<Rightarrow> KeyValue \<Rightarrow> bool" where
  "IsCreate t kv = (t = PUT \<and> CreateRevision kv = ModRevision kv)"

definition IsModify :: "EventType \<Rightarrow> KeyValue \<Rightarrow> bool" where
  "IsModify t kv = (t = PUT \<and> CreateRevision kv \<noteq> ModRevision kv)"

record RowUpdate =
  New :: "(string \<rightharpoonup> value) option"
  Old :: "(string \<rightharpoonup> value) option"
  Initial :: "(string \<rightharpoonup> value) option"
  Insert :: "(string \<rightharpoonup> value) option"
  Delete :: bool
  Modify :: "(string \<rightharpoonup> value) option"

text \<open>The zero value of the struct, which every composite literal starts from.\<close>

definition RowUpdate0 :: RowUpdate where
  "RowUpdate0 =
     \<lparr>New = None, Old = None, Initial = None, Insert = None, Delete = False, Modify = None\<rparr>"

subsection \<open>Row codec\<close>

definition COL_UUID :: string where
  "COL_UUID = ''_uuid''"

definition deleteUnselectedColumns :: "updater \<Rightarrow> row \<Rightarrow> row" where
  "deleteUnselectedColumns u data =
     (if length (Columns (mcr u)) \<noteq> 0
      then fold (\<lambda>column newData.
                   case data column of Some v \<Rightarrow> newData(column \<mapsto> v) | None \<Rightarrow> newData)
             (Columns (mcr u)) Map.empty
      else data)"

definition unmarshalData :: "bytes \<Rightarrow> error + row" where
  "unmarshalData data = (case data of None \<Rightarrow> Inl DecodeError | Some obj \<Rightarrow> Inr obj)"

text \<open>
  \<^verbatim>\<open>getAndDeleteUUID\<close> deletes the key from the map it is given; the model returns the
  map after the deletion beside the UUID.
\<close>

definition getAndDeleteUUID :: "row \<Rightarrow> error + (string \<times> row)" where
  "getAndDeleteUUID data =
     (case data COL_UUID of
        None \<Rightarrow> Inl MissingUUID
      | Some uuidInt \<Rightarrow>
          (let data' = data(COL_UUID := None) in
           case uuidInt of
             JArr uuid \<Rightarrow>
               if length uuid \<noteq> 2 then Inl WrongUUIDType
               else (case uuid ! 1 of
                       JStr uuidStr \<Rightarrow> Inr (uuidStr, data')
                     | _ \<Rightarrow> Inl WrongUUIDType)
           | _ \<Rightarrow> Inl WrongUUIDType))"

definition prepareRow :: "updater \<Rightarrow> bytes \<Rightarrow> error + (row \<times> string)" where
  "prepareRow u v =
     (case unmarshalData v of
        Inl err \<Rightarrow> Inl err
      | Inr data \<Rightarrow>
          (case getAndDeleteUUID data of
             Inl err \<Rightarrow> Inl err
           | Inr (uuid, data') \<Rightarrow> Inr (deleteUnselectedColumns u data', uuid)))"

subsection \<open>Diff engine\<close>

text \<open>The first loop of \<^verbatim>\<open>compareMaps\<close>: keys of the new map that are new or changed.\<close>

fun compareMaps_new :: "(atom \<times> atom) list \<Rightarrow> GoMap \<Rightarrow> GoMap \<Rightarrow> GoMap" where
  "compareMaps_new [] prevMap deltaMap = deltaMap"
| "compareMaps_new ((k, v) # rest) prevMap deltaMap =
     compareMaps_new rest prevMap
       (case prevMap k of
          None \<Rightarrow> deltaMap(k \<mapsto> v)
        | Some pv \<Rightarrow> if v \<noteq> pv then deltaMap(k \<mapsto> v) else deltaMap)"

text \<open>The second loop: keys of the previous map that the new map no longer has.\<close>

fun compareMaps_prev :: "(atom \<times> atom) list \<Rightarrow> GoMap \<Rightarrow> GoMap \<Rightarrow> GoMap" where
  "compareMaps_prev [] newMap deltaMap = deltaMap"
| "compareMaps_prev ((pk, pv) # rest) newMap deltaMap =
     (if deltaMap pk \<noteq> None then compareMaps_prev rest newMap deltaMap
      else if newMap pk = None then compareMaps_prev rest newMap (deltaMap(pk \<mapsto> pv))
      else compareMaps_prev rest newMap deltaMap)"

definition compareMaps :: "updater \<Rightarrow> json \<Rightarrow> json \<Rightarrow> ColumnSchema \<Rightarrow> error + GoMap" where
  "compareMaps u data prevData columnSchema =
     (case UnmarshalMap columnSchema data of
        None \<Rightarrow> Inl CannotConvertToMap
      | Some newMap \<Rightarrow>
          (case UnmarshalMap columnSchema prevData of
             None \<Rightarrow> Inl CannotConvertToMap
           | Some prevMap \<Rightarrow>
               Inr (compareMaps_prev prevMap (map_of newMap)
                      (compareMaps_new newMap (map_of prevMap) Map.empty))))"

text \<open>
  \<^verbatim>\<open>setsDifference\<close>: the inner loop looks for \<open>s1\<close> in \<open>set2\<close>; one pass of the outer loop
  appends the elements of \<open>set1\<close> not found in \<open>set2\<close>; the second pass runs with the two
  sets swapped.
\<close>

fun setsDifference_found :: "atom \<Rightarrow> atom list \<Rightarrow> bool" where
  "setsDifference_found s1 [] = False"
| "setsDifference_found s1 (s2 # rest) =
     (if s1 = s2 then True else setsDifference_found s1 rest)"

fun setsDifference_pass :: "atom list \<Rightarrow> atom list \<Rightarrow> atom list \<Rightarrow> atom list" where
  "setsDifference_pass [] set2 diff = diff"
| "setsDifference_pass (s1 # rest) set2 diff =
     setsDifference_pass rest set2
       (if \<not> setsDifference_found s1 set2 then diff @ [s1] else diff)"

definition setsDifference :: "atom list \<Rightarrow> atom list \<Rightarrow> atom list" where
  "setsDifference set1 set2 =
     setsDifference_pass set2 set1 (setsDifference_pass set1 set2 [])"

definition compareSets :: "updater \<Rightarrow> json \<Rightarrow> json \<Rightarrow> ColumnSchema \<Rightarrow> error + atom list" where
  "compareSets u data prevData columnSchema =
     (case UnmarshalSet columnSchema data of
        None \<Rightarrow> Inl CannotConvertToSet
      | Some newSet \<Rightarrow>
          (case UnmarshalSet columnSchema prevData of
             None \<Rightarrow> Inl CannotConvertToSet
           | Some prevSet \<Rightarrow> Inr (setsDifference newSet prevSet)))"

text \<open>
  \<^verbatim>\<open>compareModifiedRows\<close> fills \<open>deltaRow\<close> in place and returns an error; the model returns
  the delta as the loop left it, beside the error. \<open>ord\<close> is the order in which
  \<^verbatim>\<open>range modifiedRow\<close> visits the columns.
\<close>

fun compareModifiedRows ::
  "updater \<Rightarrow> string list \<Rightarrow> row \<Rightarrow> row \<Rightarrow> (string \<rightharpoonup> value) \<Rightarrow> (string \<rightharpoonup> value) \<times> error option"
where
  "compareModifiedRows u [] modifiedRow prevRow deltaRow = (deltaRow, None)"
| "compareModifiedRows u (column # rest) modifiedRow prevRow deltaRow =
     (case modifiedRow column of
        None \<Rightarrow> compareModifiedRows u rest modifiedRow prevRow deltaRow
      | Some cValue \<Rightarrow>
          if cValue \<noteq> index prevRow column then
            (case LookupColumn (tableSchema u) column of
               Inl err \<Rightarrow> (deltaRow, Some err)
             | Inr columnSchema \<Rightarrow>
                 if Type columnSchema = TypeMap then
                   (case compareMaps u (index modifiedRow column) (index prevRow column)
                           columnSchema of
                      Inl err \<Rightarrow> (deltaRow, Some err)
                    | Inr deltaMap \<Rightarrow>
                        compareModifiedRows u rest modifiedRow prevRow
                          (deltaRow(column \<mapsto> OvsMapV deltaMap)))
                 else if Type columnSchema = TypeSet then
                   (case compareSets u (index modifiedRow column) (index prevRow column)
                           columnSchema of
                      Inl err \<Rightarrow> (deltaRow, Some err)
                    | Inr deltaSet \<Rightarrow>
                        compareModifiedRows u rest modifiedRow prevRow
                          (deltaRow(column \<mapsto> OvsSetV deltaSet)))
                 else if isV1 u then
                   compareModifiedRows u rest modifiedRow prevRow
                     (deltaRow(column \<mapsto> JsonV (index prevRow column)))
                 else
                   compareModifiedRows u rest modifiedRow prevRow
                     (deltaRow(column \<mapsto> JsonV (index modifiedRow column))))
          else compareModifiedRows u rest modifiedRow prevRow deltaRow)"

subsection \<open>Updater\<close>

text \<open>
  Each function returns \<^verbatim>\<open>(*RowUpdate, string, error)\<close>: \<open>Inl err\<close> for a non-nil error,
  \<open>Inr (None, uuid)\<close> for a nil row update, \<open>Inr (Some ru, uuid)\<close> for an emitted one.
\<close>

type_synonym rowResult = "error + (RowUpdate option \<times> string)"

definition prepareDeleteRowUpdate :: "updater \<Rightarrow> Event \<Rightarrow> rowResult" where
  "prepareDeleteRowUpdate u event =
     (if \<not> MSIsTrue (SelectDelete (Select (mcr u))) then Inr (None, [])
      else
        (case PrevKv event of
           None \<Rightarrow> Inl NilPointer
         | Some prevKv \<Rightarrow>
             (let v = Value prevKv in
              if \<not> isV1 u then
                (case prepareRow u v of
                   Inl err \<Rightarrow> Inl err
                 | Inr (_, uuid) \<Rightarrow> Inr (Some (RowUpdate0\<lparr>Delete := True\<rparr>), uuid))
              else
                (case prepareRow u v of
                   Inl err \<Rightarrow> Inl err
                 | Inr (data, uuid) \<Rightarrow>
                     if data \<noteq> Map.empty
                     then Inr (Some (RowUpdate0\<lparr>Old := Some (asValues data)\<rparr>), uuid)
                     else Inr (None, uuid)))))"

definition prepareCreateRowUpdate :: "updater \<Rightarrow> Event \<Rightarrow> rowResult" where
  "prepareCreateRowUpdate u event =
     (if \<not> MSIsTrue (SelectInsert (Select (mcr u))) then Inr (None, [])
      else
        (case Kv event of
           None \<Rightarrow> Inl NilPointer
         | Some kv \<Rightarrow>
             (case prepareRow u (Value kv) of
                Inl err \<Rightarrow> Inl err
              | Inr (data, uuid) \<Rightarrow>
                  if data \<noteq> Map.empty then
                    (if \<not> isV1 u
                     then Inr (Some (RowUpdate0\<lparr>Insert := Some (asValues data)\<rparr>), uuid)
                     else Inr (Some (RowUpdate0\<lparr>New := Some (asValues data)\<rparr>), uuid))
                  else Inr (None, []))))"

text \<open>
  The error that \<^verbatim>\<open>compareModifiedRows\<close> returns is dropped by the caller, as in the source.
  \<open>ord\<close> gives, for the projected post-image, the order in which its columns are visited.
\<close>

definition prepareModifyRowUpdate :: "updater \<Rightarrow> (row \<Rightarrow> string list) \<Rightarrow> Event \<Rightarrow> rowResult" where
  "prepareModifyRowUpdate u ord event =
     (if \<not> MSIsTrue (SelectModify (Select (mcr u))) then Inr (None, [])
      else
        (case Kv event of
           None \<Rightarrow> Inl NilPointer
         | Some kv \<Rightarrow>
             (case prepareRow u (Value kv) of
                Inl err \<Rightarrow> Inl err
              | Inr (modifiedRow, uuid) \<Rightarrow>
                  (case PrevKv event of
                     None \<Rightarrow> Inl NilPointer
                   | Some prevKv \<Rightarrow>
                       (case prepareRow u (Value prevKv) of
                          Inl err \<Rightarrow> Inl err
                        | Inr (prevRow, prevUUID) \<Rightarrow>
                            if uuid \<noteq> prevUUID then Inl (UUIDChanged prevUUID uuid)
                            else
                              (let deltaRow =
                                     fst (compareModifiedRows u (ord modifiedRow) modifiedRow
                                            prevRow Map.empty)
                               in if deltaRow \<noteq> Map.empty then
                                    (if \<not> isV1 u
                                     then Inr (Some (RowUpdate0\<lparr>Modify := Some deltaRow\<rparr>), uuid)
                                     else Inr (Some (RowUpdate0\<lparr>New := Some (asValues modifiedRow),
                                                                Old := Some deltaRow\<rparr>), uuid))
                                  else Inr (None, [])))))))"

definition prepareRowUpdate :: "updater \<Rightarrow> (row \<Rightarrow> string list) \<Rightarrow> Event \<Rightarrow> rowResult" where
  "prepareRowUpdate u ord event =
     (case Kv event of
        None \<Rightarrow> Inl NilPointer
      | Some kv \<Rightarrow>
          if \<not> IsModify (EvType event) kv then
            (if IsCreate (EvType event) kv
             then prepareCreateRowUpdate u event
             else prepareDeleteRowUpdate u event)
          else prepareModifyRowUpdate u ord event)"

definition prepareCreateRowInitial :: "updater \<Rightarrow> bytes \<Rightarrow> rowResult" where
  "prepareCreateRowInitial u v =
     (if \<not> MSIsTrue (SelectInitial (Select (mcr u))) then Inr (None, [])
      else
        (case prepareRow u v of
           Inl err \<Rightarrow> Inl err
         | Inr (data, uuid) \<Rightarrow>
             if data \<noteq> Map.empty then
               (if \<not> isV1 u
                then Inr (Some (RowUpdate0\<lparr>Initial := Some (asValues data)\<rparr>), uuid)
                else Inr (Some (RowUpdate0\<lparr>New := Some (asValues data)\<rparr>), uuid))
             else Inr (None, uuid)))"

subsection \<open>Monitor registry\<close>

text \<open>
  Modelled from the spec: \<^verbatim>\<open>common.Key\<close>, which is not in the sources: a key path
  \<^verbatim>\<open><prefix>/<database>/<table>/<uuid>\<close> (the prefix is process-wide); the table key is the
  key without the UUID.
\<close>

record Key =
  DBName :: string
  TableName :: string
  UUID :: string

definition ToTableKey :: "Key \<Rightarrow> Key" where
  "ToTableKey k = k\<lparr>UUID := []\<rparr>"

type_synonym Key2Updaters = "Key \<rightharpoonup> updater list"

text \<open>The filtering loop of \<^verbatim>\<open>Key2Updaters.removeUpdaters\<close>.\<close>

fun removeUpdaters_loop :: "updater list \<Rightarrow> string \<Rightarrow> updater list \<Rightarrow> updater list" where
  "removeUpdaters_loop [] jsonValue newUpdaters = newUpdaters"
| "removeUpdaters_loop (u # rest) jsonValue newUpdaters =
     removeUpdaters_loop rest jsonValue
       (if jasonValueStr u \<noteq> jsonValue then newUpdaters @ [u] else newUpdaters)"

definition Key2Updaters_removeUpdaters :: "Key2Updaters \<Rightarrow> Key \<Rightarrow> string \<Rightarrow> Key2Updaters" where
  "Key2Updaters_removeUpdaters k key jsonValue =
     (case k key of
        None \<Rightarrow> k
      | Some updaters \<Rightarrow>
          (let newUpdaters = removeUpdaters_loop updaters jsonValue []
           in if length newUpdaters \<noteq> 0 then k(key \<mapsto> newUpdaters) else k(key := None)))"

record revisionChecker =
  revision :: int

record dbMonitor =
  dataBaseName :: string
  key2Updaters :: Key2Updaters
  revChecker :: revisionChecker

text \<open>
  \<^verbatim>\<open>addUpdaters\<close>. The innermost loop compares \<open>uNew\<close> with every updater of the slot; its
  \<^verbatim>\<open>continue\<close> moves on to the next \<open>u1\<close>, so the loop leaves the registry as it is and the
  append after it always runs.
\<close>

definition slot :: "Key2Updaters \<Rightarrow> Key \<Rightarrow> updater list" where
  "slot k key = (case k key of None \<Rightarrow> [] | Some updaters \<Rightarrow> updaters)"

fun addUpdaters_compare :: "updater \<Rightarrow> updater list \<Rightarrow> Key2Updaters \<Rightarrow> Key2Updaters" where
  "addUpdaters_compare uNew [] k = k"
| "addUpdaters_compare uNew (u1 # rest) k =
     (if uNew = u1 then addUpdaters_compare uNew rest k
      else addUpdaters_compare uNew rest k)"

fun addUpdaters_slot :: "Key \<Rightarrow> updater list \<Rightarrow> Key2Updaters \<Rightarrow> Key2Updaters" where
  "addUpdaters_slot key [] k = k"
| "addUpdaters_slot key (uNew # rest) k =
     (let k' = addUpdaters_compare uNew (slot k key) k
      in addUpdaters_slot key rest (k'(key \<mapsto> slot k' key @ [uNew])))"

fun addUpdaters_keys :: "(Key \<times> updater list) list \<Rightarrow> Key2Updaters \<Rightarrow> Key2Updaters" where
  "addUpdaters_keys [] k = k"
| "addUpdaters_keys ((key, updaters) # rest) k =
     (let k' = (case k key of None \<Rightarrow> k(key \<mapsto> []) | Some _ \<Rightarrow> k)
      in addUpdaters_keys rest (addUpdaters_slot key updaters k'))"

text \<open>\<open>keyToUpdaters\<close> is given as its entries in the order the outer loop visits them.\<close>

definition addUpdaters :: "dbMonitor \<Rightarrow> (Key \<times> updater list) list \<Rightarrow> dbMonitor" where
  "addUpdaters m keyToUpdaters =
     m\<lparr>key2Updaters := addUpdaters_keys keyToUpdaters (key2Updaters m)\<rparr>"

fun removeUpdaters_keys :: "Key list \<Rightarrow> string \<Rightarrow> Key2Updaters \<Rightarrow> Key2Updaters" where
  "removeUpdaters_keys [] jsonValue k = k"
| "removeUpdaters_keys (key # rest) jsonValue k =
     removeUpdaters_keys rest jsonValue (Key2Updaters_removeUpdaters k key jsonValue)"

definition removeUpdaters :: "dbMonitor \<Rightarrow> Key list \<Rightarrow> string \<Rightarrow> dbMonitor" where
  "removeUpdaters m keys jsonValue =
     m\<lparr>key2Updaters := removeUpdaters_keys keys jsonValue (key2Updaters m)\<rparr>"

subsection \<open>Watch loop\<close>

definition isNewRevision :: "revisionChecker \<Rightarrow> int \<Rightarrow> revisionChecker \<times> bool" where
  "isNewRevision rc newRevision =
     (if newRevision > revision rc then (rc\<lparr>revision := newRevision\<rparr>, True)
      else (rc, False))"

type_synonym TableUpdate = "string \<rightharpoonup> RowUpdate"
type_synonym TableUpdates = "string \<rightharpoonup> TableUpdate"

text \<open>
  The loop over the updaters of one event in \<^verbatim>\<open>prepareTableUpdate\<close>. The nested maps are
  shared by reference in Go, so storing the row update changes \<open>result\<close>. When the UUID
  already has a row update, the source logs every event of the batch and reads
  \<^verbatim>\<open>Kv.Key\<close> and \<^verbatim>\<open>PrevKv.Key\<close> of each: a nil pointer dereference when one of them is
  missing.
\<close>

fun prepareTableUpdate_updaters ::
  "(row \<Rightarrow> string list) \<Rightarrow> Event list \<Rightarrow> Key \<Rightarrow> Event \<Rightarrow> updater list \<Rightarrow>
   (string \<rightharpoonup> TableUpdates) \<Rightarrow> error + (string \<rightharpoonup> TableUpdates)"
where
  "prepareTableUpdate_updaters ord events key ev [] result = Inr result"
| "prepareTableUpdate_updaters ord events key ev (u # rest) result =
     (case prepareRowUpdate u ord ev of
        Inl err \<Rightarrow> prepareTableUpdate_updaters ord events key ev rest result
      | Inr (None, uuid) \<Rightarrow> prepareTableUpdate_updaters ord events key ev rest result
      | Inr (Some rowUpdate, uuid) \<Rightarrow>
          (let tableUpdates =
                 (case result (jasonValueStr u) of None \<Rightarrow> Map.empty | Some t \<Rightarrow> t);
               tableUpdate =
                 (case tableUpdates (TableName key) of None \<Rightarrow> Map.empty | Some t \<Rightarrow> t)
           in if tableUpdate uuid \<noteq> None \<and>
                 list_ex (\<lambda>eLog. Kv eLog = None \<or> PrevKv eLog = None) events
              then Inl NilPointer
              else prepareTableUpdate_updaters ord events key ev rest
                     (result(jasonValueStr u \<mapsto>
                        tableUpdates(TableName key \<mapsto> tableUpdate(uuid \<mapsto> rowUpdate))))))"

text \<open>
  The loop over the events. \<^verbatim>\<open>common.ParseKey\<close> is not in the sources and is taken as the
  parameter \<open>ParseKey\<close> (\<open>None\<close> is its error return). \<open>all\<close> is the whole batch, \<open>m\<close> the
  monitor whose registry is read.
\<close>

fun prepareTableUpdate_events ::
  "dbMonitor \<Rightarrow> (string \<Rightarrow> Key option) \<Rightarrow> (row \<Rightarrow> string list) \<Rightarrow> Event list \<Rightarrow> Event list \<Rightarrow>
   (string \<rightharpoonup> TableUpdates) \<Rightarrow> error + (string \<rightharpoonup> TableUpdates)"
where
  "prepareTableUpdate_events m ParseKey ord all [] result = Inr result"
| "prepareTableUpdate_events m ParseKey ord all (ev # rest) result =
     (case Kv ev of
        None \<Rightarrow> prepareTableUpdate_events m ParseKey ord all rest result
      | Some kv \<Rightarrow>
          (case ParseKey (Key kv) of
             None \<Rightarrow> prepareTableUpdate_events m ParseKey ord all rest result
           | Some key \<Rightarrow>
               (case key2Updaters m (ToTableKey key) of
                  None \<Rightarrow> prepareTableUpdate_events m ParseKey ord all rest result
                | Some updaters \<Rightarrow>
                    (case prepareTableUpdate_updaters ord all key ev updaters result of
                       Inl err \<Rightarrow> Inl err
                     | Inr result' \<Rightarrow>
                         prepareTableUpdate_events m ParseKey ord all rest result'))))"

text \<open>
  \<^verbatim>\<open>prepareTableUpdate\<close> returns \<^verbatim>\<open>(result, nil)\<close> on every path; \<open>Inl\<close> is the panic above.
\<close>

definition prepareTableUpdate ::
  "dbMonitor \<Rightarrow> (string \<Rightarrow> Key option) \<Rightarrow> (row \<Rightarrow> string list) \<Rightarrow> Event list \<Rightarrow>
   error + ((string \<rightharpoonup> TableUpdates) \<times> error option)"
where
  "prepareTableUpdate m ParseKey ord events =
     (case prepareTableUpdate_events m ParseKey ord events events Map.empty of
        Inl err \<Rightarrow> Inl err
      | Inr result \<Rightarrow> Inr (result, None))"

text \<open>
  \<^verbatim>\<open>notify\<close> returns the monitor as the call leaves it and the outcome: the panic, or the
  notifications handed to \<^verbatim>\<open>handler.notify\<close>, one for each entry of \<open>result\<close> (the map
  from the json-value to its table updates).
\<close>

definition notify ::
  "dbMonitor \<Rightarrow> (string \<Rightarrow> Key option) \<Rightarrow> (row \<Rightarrow> string list) \<Rightarrow> Event list \<Rightarrow> int \<Rightarrow>
   dbMonitor \<times> (error + (string \<rightharpoonup> TableUpdates))"
where
  "notify m ParseKey ord events newRevision =
     (if length events = 0 then (m, Inr Map.empty)
      else
        (let (rc, isNew) = isNewRevision (revChecker m) newRevision;
             m' = m\<lparr>revChecker := rc\<rparr>
         in if isNew then
              (case prepareTableUpdate m' ParseKey ord events of
                 Inl err \<Rightarrow> (m', Inl err)
               | Inr (result, Some err) \<Rightarrow> (m', Inr Map.empty)
               | Inr (result, None) \<Rightarrow>
                   if result = Map.empty then (m', Inr Map.empty) else (m', Inr result))
            else (m', Inr Map.empty)))"

subsection \<open>Example inputs\<close>

text \<open>
  A column schema needs decoders. The examples use the OVSDB wire notation:
  \<^verbatim>\<open>["map", [[k, v], ...]]\<close> and \<^verbatim>\<open>["set", [e, ...]]\<close> over strings, numbers and booleans.
\<close>

fun exAtom :: "json \<Rightarrow> atom option" where
  "exAtom (JStr s) = Some (AStr s)"
| "exAtom (JNum n) = Some (AReal n)"
| "exAtom (JBool b) = Some (ABool b)"
| "exAtom _ = None"

definition exPair :: "json \<Rightarrow> (atom \<times> atom) option" where
  "exPair j =
     (case j of
        JArr [k, v] \<Rightarrow>
          (case exAtom k of
             None \<Rightarrow> None
           | Some a \<Rightarrow> (case exAtom v of None \<Rightarrow> None | Some b \<Rightarrow> Some (a, b)))
      | _ \<Rightarrow> None)"

definition exUnmarshalMap :: "json \<Rightarrow> (atom \<times> atom) list option" where
  "exUnmarshalMap j =
     (case j of
        JArr [JStr tag, JArr ps] \<Rightarrow> if tag = ''map'' then those (map exPair ps) else None
      | _ \<Rightarrow> None)"

definition exUnmarshalSet :: "json \<Rightarrow> atom list option" where
  "exUnmarshalSet j =
     (case j of
        JArr [JStr tag, JArr es] \<Rightarrow> if tag = ''set'' then those (map exAtom es) else None
      | _ \<Rightarrow> None)"

definition exColumn :: "ExtendedType \<Rightarrow> ColumnSchema" where
  "exColumn t = \<lparr>Type = t, UnmarshalMap = exUnmarshalMap, UnmarshalSet = exUnmarshalSet\<rparr>"

text \<open>A table with two string columns, a map column and a set column.\<close>

definition exSchema :: TableSchema where
  "exSchema =
     [''c1'' \<mapsto> exColumn TypeString, ''c2'' \<mapsto> exColumn TypeString,
      ''m'' \<mapsto> exColumn TypeMap, ''s'' \<mapsto> exColumn TypeSet]"

definition exSelect :: MonitorSelect where
  "exSelect =
     \<lparr>SelectInitial = None, SelectInsert = None, SelectDelete = None, SelectModify = None\<rparr>"

definition exUpdater :: "string list \<Rightarrow> bool \<Rightarrow> updater" where
  "exUpdater columns v1 =
     \<lparr>mcr = \<lparr>Columns = columns, Where = None, Select = exSelect\<rparr>,
      tableSchema = exSchema, isV1 = v1,
      notificationType = (if v1 then Update else Update2),
      jasonValueStr = ''jsonValue1''\<rparr>"

text \<open>The map values of scenario 5 of the specification.\<close>

definition exMapPrev :: json where
  "exMapPrev =
     JArr [JStr ''map'', JArr [JArr [JStr ''a'', JNum 1], JArr [JStr ''b'', JNum 2]]]"

definition exMapPost :: json where
  "exMapPost =
     JArr [JStr ''map'',
           JArr [JArr [JStr ''a'', JNum 1], JArr [JStr ''b'', JNum 3], JArr [JStr ''c'', JNum 4]]]"

text \<open>The set values of scenario 6 of the specification.\<close>

definition exSetPrev :: json where
  "exSetPrev = JArr [JStr ''set'', JArr [JNum 1, JNum 2, JNum 3]]"

definition exSetPost :: json where
  "exSetPost = JArr [JStr ''set'', JArr [JNum 2, JNum 3, JNum 4]]"

text \<open>Table keys, a monitor with an empty registry, and updaters of two monitors.\<close>

definition exKey1 :: Key where
  "exKey1 = \<lparr>DBName = ''db'', TableName = ''table1'', UUID = []\<rparr>"

definition exKey2 :: Key where
  "exKey2 = \<lparr>DBName = ''db'', TableName = ''table2'', UUID = []\<rparr>"

definition exMonitor0 :: dbMonitor where
  "exMonitor0 =
     \<lparr>dataBaseName = ''db'', key2Updaters = Map.empty, revChecker = \<lparr>revision = 0\<rparr>\<rparr>"

definition exOther :: updater where
  "exOther = (exUpdater [''c1''] True)\<lparr>jasonValueStr := ''jsonValue2''\<rparr>"

text \<open>A registry with one updater of monitor \<open>jsonValue1\<close> in the slot of \<open>exKey1\<close>.\<close>

definition exMonitor1 :: dbMonitor where
  "exMonitor1 = exMonitor0\<lparr>key2Updaters := [exKey1 \<mapsto> [exUpdater [''c1''] True]]\<rparr>"

text \<open>A registry with updaters of both monitors.\<close>

definition exMonitor2 :: dbMonitor where
  "exMonitor2 =
     exMonitor0\<lparr>key2Updaters :=
       [exKey1 \<mapsto> [exUpdater [''c1''] True, exOther], exKey2 \<mapsto> [exUpdater [] True]]\<rparr>"

text \<open>
  The rows of the repository's test (\<^verbatim>\<open>monitor_test.go\<close>) and scenarios 1 to 3 of the
  specification, and the three kinds of event on them.
\<close>

definition exRow1 :: row where
  "exRow1 =
     [''_uuid'' \<mapsto> JArr [JStr ''uuid'', JStr ''U1''], ''c1'' \<mapsto> JStr ''v1'', ''c2'' \<mapsto> JStr ''v2'']"

definition exRow2 :: row where
  "exRow2 =
     [''_uuid'' \<mapsto> JArr [JStr ''uuid'', JStr ''U1''], ''c1'' \<mapsto> JStr ''v1'', ''c2'' \<mapsto> JStr ''v3'']"

text \<open>The first row under another UUID.\<close>

definition exRow3 :: row where
  "exRow3 =
     [''_uuid'' \<mapsto> JArr [JStr ''uuid'', JStr ''U2''], ''c1'' \<mapsto> JStr ''v1'', ''c2'' \<mapsto> JStr ''v3'']"

definition exKv :: "bytes \<Rightarrow> int \<Rightarrow> int \<Rightarrow> KeyValue" where
  "exKv v created modified =
     \<lparr>Key = ''db/table1/U1'', Value = v, CreateRevision = created, ModRevision = modified\<rparr>"

definition exCreate :: Event where
  "exCreate = \<lparr>EvType = PUT, Kv = Some (exKv (Some exRow1) 1 1), PrevKv = None\<rparr>"

definition exModify :: "row \<Rightarrow> row \<Rightarrow> Event" where
  "exModify pre post =
     \<lparr>EvType = PUT, Kv = Some (exKv (Some post) 1 2), PrevKv = Some (exKv (Some pre) 1 1)\<rparr>"

definition exDelete :: Event where
  "exDelete =
     \<lparr>EvType = DELETE, Kv = Some (exKv None 0 3), PrevKv = Some (exKv (Some exRow1) 1 2)\<rparr>"

text \<open>
  Two delete events whose pre-image does not pass the row codec: bytes that are no JSON
  object, and an object without the field \<open>_uuid\<close>.
\<close>

definition exDeleteUndecodable :: Event where
  "exDeleteUndecodable =
     \<lparr>EvType = DELETE, Kv = Some (exKv None 0 3), PrevKv = Some (exKv None 1 2)\<rparr>"

definition exDeleteNoUUID :: Event where
  "exDeleteNoUUID =
     \<lparr>EvType = DELETE, Kv = Some (exKv None 0 3),
      PrevKv = Some (exKv (Some [''c1'' \<mapsto> JStr ''v1'']) 1 2)\<rparr>"

definition exParseKey :: "string \<Rightarrow> Key option" where
  "exParseKey s =
     (if s = ''db/table1/U1''
      then Some \<lparr>DBName = ''db'', TableName = ''table1'', UUID = ''U1''\<rparr>
      else None)"

text \<open>
  Two visiting orders for the columns of a row over the names the examples use: \<open>c9\<close>, a
  column the example schema does not know, comes last in one and first in the other.
\<close>

definition exOrd :: "row \<Rightarrow> string list" where
  "exOrd r = filter (\<lambda>c. r c \<noteq> None) [''c1'', ''c2'', ''m'', ''s'', ''c9'']"

definition exOrdRev :: "row \<Rightarrow> string list" where
  "exOrdRev r = filter (\<lambda>c. r c \<noteq> None) [''c9'', ''s'', ''m'', ''c2'', ''c1'']"

text \<open>
  The first row without its column \<open>c2\<close>; and two rows with the column \<open>c9\<close>, which differ
  in \<open>c1\<close> and in \<open>c9\<close>.
\<close>

definition exRow4 :: row where
  "exRow4 = [''_uuid'' \<mapsto> JArr [JStr ''uuid'', JStr ''U1''], ''c1'' \<mapsto> JStr ''v1'']"

definition exRow5 :: row where
  "exRow5 =
     [''_uuid'' \<mapsto> JArr [JStr ''uuid'', JStr ''U1''], ''c1'' \<mapsto> JStr ''v1'', ''c9'' \<mapsto> JStr ''x'']"

definition exRow6 :: row where
  "exRow6 =
     [''_uuid'' \<mapsto> JArr [JStr ''uuid'', JStr ''U1''], ''c1'' \<mapsto> JStr ''v2'', ''c9'' \<mapsto> JStr ''y'']"

subsection \<open>Notions used in the statements\<close>

text \<open>The updaters of a slot that belong to other monitors than \<open>jv\<close>.\<close>

definition kept :: "string \<Rightarrow> updater list \<Rightarrow> updater list" where
  "kept jv us = filter (\<lambda>u. jasonValueStr u \<noteq> jv) us"

text \<open>All updaters that the incoming entries bring for the table key \<open>x\<close>, in order.\<close>

definition added :: "(Key \<times> updater list) list \<Rightarrow> Key \<Rightarrow> updater list" where
  "added U x = concat (map snd (filter (\<lambda>e. fst e = x) U))"

text \<open>The column maps of a row update: those of its fields that are set.\<close>

definition columnMaps :: "RowUpdate \<Rightarrow> (string \<rightharpoonup> value) set" where
  "columnMaps ru =
     set_option (New ru) \<union> set_option (Old ru) \<union> set_option (Initial ru) \<union>
     set_option (Insert ru) \<union> set_option (Modify ru)"

text \<open>
  The diff engine in the words of the specification. A column of the post-image has changed
  when its value is not deeply equal to the one the pre-image gives (nil when the pre-image
  lacks the column).
\<close>

definition columnChanged :: "row \<Rightarrow> row \<Rightarrow> string \<Rightarrow> bool" where
  "columnChanged modifiedRow prevRow column =
     (case modifiedRow column of None \<Rightarrow> False | Some cValue \<Rightarrow> cValue \<noteq> index prevRow column)"

text \<open>
  The delta of one changed column: the map delta for a map column, the set difference for a
  set column; for a scalar column the previous value in v1 and the new value in v2/v3.
  \<open>Inl\<close> when the schema does not know the column or a side does not decode.
\<close>

definition columnDelta :: "updater \<Rightarrow> row \<Rightarrow> row \<Rightarrow> string \<Rightarrow> error + value" where
  "columnDelta u modifiedRow prevRow column =
     (case LookupColumn (tableSchema u) column of
        Inl err \<Rightarrow> Inl err
      | Inr columnSchema \<Rightarrow>
          if Type columnSchema = TypeMap then
            map_sum id OvsMapV
              (compareMaps u (index modifiedRow column) (index prevRow column) columnSchema)
          else if Type columnSchema = TypeSet then
            map_sum id OvsSetV
              (compareSets u (index modifiedRow column) (index prevRow column) columnSchema)
          else Inr (JsonV (if isV1 u then index prevRow column else index modifiedRow column)))"

text \<open>The delta over the changed columns among \<open>cols\<close>.\<close>

definition rowDelta :: "updater \<Rightarrow> row \<Rightarrow> row \<Rightarrow> string set \<Rightarrow> (string \<rightharpoonup> value)" where
  "rowDelta u modifiedRow prevRow cols =
     (\<lambda>column.
        if column \<in> cols \<and> columnChanged modifiedRow prevRow column
        then (case columnDelta u modifiedRow prevRow column of
                Inl err \<Rightarrow> None
              | Inr d \<Rightarrow> Some d)
        else None)"

section \<open>Properties\<close>

subsection \<open>The map delta\<close>

lemma compareMaps_new_lookup:
  "distinct (map fst xs) \<Longrightarrow>
   compareMaps_new xs prevMap d k =
     (case map_of xs k of
        Some v \<Rightarrow> if prevMap k = Some v then d k else Some v
      | None \<Rightarrow> d k)"
proof (induction xs arbitrary: d)
  case Nil
  then show ?case by simp
next
  case (Cons e xs)
  obtain a b where e: "e = (a, b)" by (cases e)
  from Cons.prems e have fresh: "map_of xs a = None" and dist: "distinct (map fst xs)"
    by (auto simp: map_of_eq_None_iff)
  show ?case
    using fresh by (auto simp: e Cons.IH [OF dist] split: option.splits)
qed

lemma compareMaps_prev_lookup:
  "distinct (map fst ps) \<Longrightarrow>
   compareMaps_prev ps newMap d k =
     (case d k of
        Some x \<Rightarrow> Some x
      | None \<Rightarrow> (case map_of ps k of
                   Some pv \<Rightarrow> if newMap k = None then Some pv else None
                 | None \<Rightarrow> None))"
proof (induction ps arbitrary: d)
  case Nil
  then show ?case by (simp split: option.splits)
next
  case (Cons e ps)
  obtain a b where e: "e = (a, b)" by (cases e)
  from Cons.prems e have fresh: "map_of ps a = None" and dist: "distinct (map fst ps)"
    by (auto simp: map_of_eq_None_iff)
  show ?case
    using fresh by (auto simp: e Cons.IH [OF dist] split: option.splits)
qed

text \<open>
  C3. When both sides of a map column decode, \<^verbatim>\<open>compareMaps\<close> returns the delta that
  holds, for every key of the new map whose value is new or changed, the new value; for
  every key of the previous map that the new map lacks, the previous value; and nothing for
  a key that both maps send to the same value (nor for a key in neither map). The keys of a
  Go map are distinct, which the two entry lists record.
\<close>

theorem compareMaps_delta:
  assumes "UnmarshalMap cs data = Some newMap"
    and "UnmarshalMap cs prevData = Some prevMap"
    and "distinct (map fst newMap)"
    and "distinct (map fst prevMap)"
  shows "\<exists>delta. compareMaps u data prevData cs = Inr delta \<and>
           (\<forall>k. delta k =
              (case map_of newMap k of
                 Some v \<Rightarrow> if map_of prevMap k = Some v then None else Some v
               | None \<Rightarrow> map_of prevMap k))"
  using assms
  by (auto simp: compareMaps_def compareMaps_new_lookup compareMaps_prev_lookup
           split: option.splits)

text \<open>
  The scenario of the specification: previous map \<open>{a:1, b:2}\<close>, new map
  \<open>{a:1, b:3, c:4}\<close>; the delta is \<open>{b:3, c:4}\<close>.
\<close>

theorem compareMaps_delta_witness:
  "UnmarshalMap (exColumn TypeMap) exMapPost =
     Some [(AStr ''a'', AReal 1), (AStr ''b'', AReal 3), (AStr ''c'', AReal 4)] \<and>
   UnmarshalMap (exColumn TypeMap) exMapPrev = Some [(AStr ''a'', AReal 1), (AStr ''b'', AReal 2)] \<and>
   compareMaps (exUpdater [] False) exMapPost exMapPrev (exColumn TypeMap) =
     Inr [AStr ''b'' \<mapsto> AReal 3, AStr ''c'' \<mapsto> AReal 4]"
proof -
  have post: "UnmarshalMap (exColumn TypeMap) exMapPost =
      Some [(AStr ''a'', AReal 1), (AStr ''b'', AReal 3), (AStr ''c'', AReal 4)]"
    by (simp add: exColumn_def exUnmarshalMap_def exMapPost_def exPair_def)
  have prev: "UnmarshalMap (exColumn TypeMap) exMapPrev =
      Some [(AStr ''a'', AReal 1), (AStr ''b'', AReal 2)]"
    by (simp add: exColumn_def exUnmarshalMap_def exMapPrev_def exPair_def)
  from compareMaps_delta [OF post prev, of "exUpdater [] False"]
  obtain delta where
    run: "compareMaps (exUpdater [] False) exMapPost exMapPrev (exColumn TypeMap) = Inr delta"
    and look: "\<And>k. delta k =
      (case map_of [(AStr ''a'', AReal 1), (AStr ''b'', AReal 3), (AStr ''c'', AReal 4)] k of
         Some v \<Rightarrow>
           if map_of [(AStr ''a'', AReal 1), (AStr ''b'', AReal 2)] k = Some v then None
           else Some v
       | None \<Rightarrow> map_of [(AStr ''a'', AReal 1), (AStr ''b'', AReal 2)] k)"
    by auto
  have "delta = [AStr ''b'' \<mapsto> AReal 3, AStr ''c'' \<mapsto> AReal 4]"
    by (rule ext) (simp add: look)
  with run post prev show ?thesis by simp
qed

subsection \<open>The registry\<close>

lemma removeUpdaters_loop_filter:
  "removeUpdaters_loop us jv acc = acc @ kept jv us"
  by (induction us arbitrary: acc) (auto simp: kept_def)

lemma kept_idem: "kept jv (kept jv us) = kept jv us"
  by (simp add: kept_def)

lemma Key2Updaters_removeUpdaters_lookup:
  "Key2Updaters_removeUpdaters k key jv x =
     (if x = key
      then (case k key of
              None \<Rightarrow> None
            | Some us \<Rightarrow> if kept jv us = [] then None else Some (kept jv us))
      else k x)"
  by (simp add: Key2Updaters_removeUpdaters_def removeUpdaters_loop_filter Let_def
           split: option.splits)

lemma removeUpdaters_keys_lookup:
  "removeUpdaters_keys keys jv k x =
     (if x \<in> set keys
      then (case k x of
              None \<Rightarrow> None
            | Some us \<Rightarrow> if kept jv us = [] then None else Some (kept jv us))
      else k x)"
proof (induction keys arbitrary: k)
  case Nil
  then show ?case by simp
next
  case (Cons a keys)
  show ?case
    by (simp add: Cons.IH Key2Updaters_removeUpdaters_lookup kept_idem split: option.splits)
qed

lemma addUpdaters_compare_id: "addUpdaters_compare uNew us k = k"
  by (induction us) auto

lemma addUpdaters_slot_lookup:
  "addUpdaters_slot key us k x =
     (if x = key \<and> us \<noteq> [] then Some (slot k key @ us) else k x)"
proof (induction us arbitrary: k)
  case Nil
  then show ?case by simp
next
  case (Cons uNew us)
  show ?case
    by (simp add: Cons.IH addUpdaters_compare_id slot_def Let_def)
qed

lemma addUpdaters_keys_lookup:
  "addUpdaters_keys U k x =
     (if x \<in> fst ` set U then Some (slot k x @ added U x) else k x)"
proof (induction U arbitrary: k)
  case Nil
  then show ?case by simp
next
  case (Cons e U)
  obtain key us where e: "e = (key, us)" by (cases e)
  show ?case
    by (auto simp: e Cons.IH addUpdaters_slot_lookup slot_def added_def Let_def image_iff
             split: option.splits)
qed

text \<open>
  C10, as the code has it. \<^verbatim>\<open>removeUpdaters\<close> is idempotent; after the call no table key
  of the key list maps to an empty updater list (a slot the removal empties is deleted); a
  key absent from the registry stays absent; and a registry without an empty slot stays
  without one. A slot that was empty before the call and is not in the key list is left as
  it is.
\<close>

theorem removeUpdaters_idempotent_listed_slots:
  "removeUpdaters (removeUpdaters m keys jv) keys jv = removeUpdaters m keys jv \<and>
   (\<forall>key \<in> set keys. key2Updaters (removeUpdaters m keys jv) key \<noteq> Some []) \<and>
   (\<forall>key. key2Updaters m key = None \<longrightarrow> key2Updaters (removeUpdaters m keys jv) key = None) \<and>
   ((\<forall>key. key2Updaters m key \<noteq> Some []) \<longrightarrow>
      (\<forall>key. key2Updaters (removeUpdaters m keys jv) key \<noteq> Some []))"
proof -
  have idem: "removeUpdaters (removeUpdaters m keys jv) keys jv = removeUpdaters m keys jv"
  proof -
    have "removeUpdaters_keys keys jv (removeUpdaters_keys keys jv (key2Updaters m)) =
          removeUpdaters_keys keys jv (key2Updaters m)"
      by (rule ext) (simp add: removeUpdaters_keys_lookup kept_idem split: option.splits)
    then show ?thesis by (simp add: removeUpdaters_def)
  qed
  have look: "\<And>key. key2Updaters (removeUpdaters m keys jv) key =
      (if key \<in> set keys
       then (case key2Updaters m key of
               None \<Rightarrow> None
             | Some us \<Rightarrow> if kept jv us = [] then None else Some (kept jv us))
       else key2Updaters m key)"
    by (simp add: removeUpdaters_def removeUpdaters_keys_lookup)
  show ?thesis
    using idem by (auto simp: look split: option.splits)
qed

text \<open>The theorem at a registry with updaters of two monitors under two table keys.\<close>

theorem removeUpdaters_idempotent_listed_slots_witness:
  "exKey1 \<in> set [exKey1, exKey2] \<and>
   key2Updaters exMonitor2 exKey1 = Some [exUpdater [''c1''] True, exOther] \<and>
   key2Updaters exMonitor2 exKey2 = Some [exUpdater [] True] \<and>
   removeUpdaters (removeUpdaters exMonitor2 [exKey1, exKey2] ''jsonValue1'')
       [exKey1, exKey2] ''jsonValue1'' =
     removeUpdaters exMonitor2 [exKey1, exKey2] ''jsonValue1'' \<and>
   key2Updaters (removeUpdaters exMonitor2 [exKey1, exKey2] ''jsonValue1'') exKey1 = Some [exOther] \<and>
   key2Updaters (removeUpdaters exMonitor2 [exKey1, exKey2] ''jsonValue1'') exKey2 = None"
proof -
  have reg: "key2Updaters exMonitor2 exKey1 = Some [exUpdater [''c1''] True, exOther]"
    "key2Updaters exMonitor2 exKey2 = Some [exUpdater [] True]"
    by (simp_all add: exMonitor2_def exMonitor0_def exKey1_def exKey2_def)
  have run:
    "key2Updaters (removeUpdaters exMonitor2 [exKey1, exKey2] ''jsonValue1'') exKey1 = Some [exOther]"
    "key2Updaters (removeUpdaters exMonitor2 [exKey1, exKey2] ''jsonValue1'') exKey2 = None"
    by (simp_all add: removeUpdaters_def exMonitor2_def exMonitor0_def exKey1_def exKey2_def
        Key2Updaters_removeUpdaters_def exOther_def exUpdater_def Let_def)
  from removeUpdaters_idempotent_listed_slots [of exMonitor2 "[exKey1, exKey2]" "''jsonValue1''"]
  show ?thesis using reg run by simp
qed

text \<open>
  C10 as stated fails: \<^verbatim>\<open>addUpdaters\<close> with an empty updater list creates an empty slot,
  and a later \<^verbatim>\<open>removeUpdaters\<close> for another table key leaves it in the registry.
\<close>

theorem removeUpdaters_untouched_empty_slot_counterexample:
  "key2Updaters (addUpdaters exMonitor0 [(exKey1, [])]) exKey1 = Some [] \<and>
   key2Updaters (removeUpdaters (addUpdaters exMonitor0 [(exKey1, [])]) [exKey2] ''jsonValue1'')
     exKey1 = Some []"
  by (simp add: removeUpdaters_def addUpdaters_def exMonitor0_def exKey1_def exKey2_def
        Key2Updaters_removeUpdaters_def Let_def)

text \<open>
  C5. The slot of \<open>exKey1\<close> holds one updater; \<^verbatim>\<open>addUpdaters\<close> with an updater equal to
  it leaves the slot with two equal updaters: the duplicate is appended, not skipped.
\<close>

theorem addUpdaters_appends_deep_equal_updater:
  "key2Updaters exMonitor1 exKey1 = Some [exUpdater [''c1''] True] \<and>
   key2Updaters (addUpdaters exMonitor1 [(exKey1, [exUpdater [''c1''] True])]) exKey1 =
     Some [exUpdater [''c1''] True, exUpdater [''c1''] True]"
  by (simp add: addUpdaters_def exMonitor1_def exMonitor0_def slot_def Let_def)

lemma kept_all_same: "\<forall>u \<in> set us. jasonValueStr u = jv \<Longrightarrow> kept jv us = []"
  by (induction us) (auto simp: kept_def)

lemma kept_none_same: "\<forall>u \<in> set us. jasonValueStr u \<noteq> jv \<Longrightarrow> kept jv us = us"
  by (induction us) (auto simp: kept_def)

lemma kept_append: "kept jv (xs @ ys) = kept jv xs @ kept jv ys"
  by (simp add: kept_def)

lemma kept_added:
  "\<forall>(key, us) \<in> set U. \<forall>u \<in> set us. jasonValueStr u = jv \<Longrightarrow> kept jv (added U x) = []"
  by (rule kept_all_same) (auto simp: added_def)

text \<open>
  C6, as the code has it. Let every updater of \<open>U\<close> carry the json-value \<open>jv\<close>, let \<open>keys\<close>
  list the table keys of \<open>U\<close>, and let the registry hold, under these table keys, neither an
  empty slot nor an updater with the json-value \<open>jv\<close>. Then \<^verbatim>\<open>addUpdaters\<close> followed by
  \<^verbatim>\<open>removeUpdaters\<close> gives back the monitor it started from.
\<close>

theorem addUpdaters_removeUpdaters_restores:
  assumes carry: "\<forall>(key, us) \<in> set U. \<forall>u \<in> set us. jasonValueStr u = jv"
    and keys: "set keys = fst ` set U"
    and prior: "\<forall>key \<in> set keys. \<forall>us. key2Updaters m key = Some us \<longrightarrow>
                  us \<noteq> [] \<and> (\<forall>u \<in> set us. jasonValueStr u \<noteq> jv)"
  shows "removeUpdaters (addUpdaters m U) keys jv = m"
proof -
  have "removeUpdaters_keys keys jv (addUpdaters_keys U (key2Updaters m)) = key2Updaters m"
  proof (rule ext)
    fix x
    show "removeUpdaters_keys keys jv (addUpdaters_keys U (key2Updaters m)) x = key2Updaters m x"
    proof (cases "x \<in> set keys")
      case False
      with keys show ?thesis
        by (simp add: removeUpdaters_keys_lookup addUpdaters_keys_lookup)
    next
      case True
      show ?thesis
      proof (cases "key2Updaters m x")
        case None
        with True keys show ?thesis
          by (simp add: removeUpdaters_keys_lookup addUpdaters_keys_lookup slot_def
                kept_added [OF carry])
      next
        case (Some us)
        with True prior have "us \<noteq> []" and "kept jv us = us"
          by (auto intro: kept_none_same)
        with True keys Some show ?thesis
          by (simp add: removeUpdaters_keys_lookup addUpdaters_keys_lookup slot_def
                kept_append kept_added [OF carry])
      qed
    qed
  qed
  then show ?thesis
    by (simp add: removeUpdaters_def addUpdaters_def)
qed

theorem addUpdaters_removeUpdaters_restores_witness:
  "jasonValueStr (exUpdater [] True) = ''jsonValue1'' \<and>
   jasonValueStr (exUpdater [''c2''] True) = ''jsonValue1'' \<and>
   key2Updaters (exMonitor0\<lparr>key2Updaters := [exKey1 \<mapsto> [exOther]]\<rparr>) exKey1 = Some [exOther] \<and>
   jasonValueStr exOther \<noteq> ''jsonValue1'' \<and>
   removeUpdaters
     (addUpdaters (exMonitor0\<lparr>key2Updaters := [exKey1 \<mapsto> [exOther]]\<rparr>)
        [(exKey1, [exUpdater [] True, exUpdater [''c2''] True])])
     [exKey1] ''jsonValue1'' =
   exMonitor0\<lparr>key2Updaters := [exKey1 \<mapsto> [exOther]]\<rparr>"
  using addUpdaters_removeUpdaters_restores
    [of "[(exKey1, [exUpdater [] True, exUpdater [''c2''] True])]" "''jsonValue1''" "[exKey1]"
        "exMonitor0\<lparr>key2Updaters := [exKey1 \<mapsto> [exOther]]\<rparr>"]
  by (simp add: exUpdater_def exOther_def)

text \<open>
  C6 as stated fails at a registry that already holds an updater with the json-value of
  \<open>U\<close> under a table key of \<open>U\<close> (the removal takes it too), and at a registry with an
  empty slot under a table key of \<open>U\<close> (the removal deletes the slot).
\<close>

theorem addUpdaters_removeUpdaters_counterexample:
  "removeUpdaters (addUpdaters exMonitor1 [(exKey1, [exUpdater [''c2''] True])]) [exKey1]
     (jasonValueStr (exUpdater [''c2''] True)) \<noteq> exMonitor1 \<and>
   removeUpdaters
     (addUpdaters (addUpdaters exMonitor0 [(exKey1, [])]) [(exKey1, [exUpdater [''c2''] True])])
     [exKey1] (jasonValueStr (exUpdater [''c2''] True)) \<noteq> addUpdaters exMonitor0 [(exKey1, [])]"
proof -
  have a: "key2Updaters (removeUpdaters (addUpdaters exMonitor1 [(exKey1, [exUpdater [''c2''] True])])
      [exKey1] (jasonValueStr (exUpdater [''c2''] True))) exKey1 = None"
    by (simp add: removeUpdaters_def addUpdaters_def exMonitor1_def exMonitor0_def slot_def
          Key2Updaters_removeUpdaters_def exUpdater_def Let_def)
  have a': "key2Updaters exMonitor1 exKey1 \<noteq> None"
    by (simp add: exMonitor1_def exMonitor0_def)
  have b: "key2Updaters (removeUpdaters
     (addUpdaters (addUpdaters exMonitor0 [(exKey1, [])]) [(exKey1, [exUpdater [''c2''] True])])
     [exKey1] (jasonValueStr (exUpdater [''c2''] True))) exKey1 = None"
    by (simp add: removeUpdaters_def addUpdaters_def exMonitor0_def slot_def
          Key2Updaters_removeUpdaters_def exUpdater_def Let_def)
  have b': "key2Updaters (addUpdaters exMonitor0 [(exKey1, [])]) exKey1 \<noteq> None"
    by (simp add: addUpdaters_def exMonitor0_def)
  from a a' b b' show ?thesis by metis
qed

subsection \<open>The revision checker\<close>

text \<open>
  C7. The stored revision never decreases, neither in \<^verbatim>\<open>isNewRevision\<close> nor over a call of
  \<^verbatim>\<open>notify\<close>. A non-empty batch whose revision is at most the stored one hands off no
  notification and leaves the monitor, and so the stored revision, unchanged. A non-empty
  batch with a greater revision stores that revision, and its events are processed by
  \<^verbatim>\<open>prepareTableUpdate\<close> on the monitor that already holds it.
\<close>

theorem notify_revision:
  "revision rc \<le> revision (fst (isNewRevision rc r)) \<and>
   revision (revChecker m) \<le> revision (revChecker (fst (notify m ParseKey ord events r))) \<and>
   (events \<noteq> [] \<and> r \<le> revision (revChecker m) \<longrightarrow>
      notify m ParseKey ord events r = (m, Inr Map.empty)) \<and>
   (events \<noteq> [] \<and> revision (revChecker m) < r \<longrightarrow>
      fst (notify m ParseKey ord events r) = m\<lparr>revChecker := (revChecker m)\<lparr>revision := r\<rparr>\<rparr> \<and>
      revision (revChecker (fst (notify m ParseKey ord events r))) = r \<and>
      snd (notify m ParseKey ord events r) =
        (case prepareTableUpdate (m\<lparr>revChecker := (revChecker m)\<lparr>revision := r\<rparr>\<rparr>)
                ParseKey ord events of
           Inl err \<Rightarrow> Inl err
         | Inr (result, err) \<Rightarrow> Inr result))"
  by (auto simp: notify_def isNewRevision_def prepareTableUpdate_def Let_def
           split: sum.splits option.splits prod.splits)

text \<open>The theorem at a stored revision 0, with a batch at revision 0 and one at revision 5.\<close>

theorem notify_revision_witness:
  "[exCreate] \<noteq> [] \<and> 0 \<le> revision (revChecker exMonitor1) \<and>
   notify exMonitor1 exParseKey exOrd [exCreate] 0 = (exMonitor1, Inr Map.empty) \<and>
   revision (revChecker exMonitor1) < 5 \<and>
   revision (revChecker (fst (notify exMonitor1 exParseKey exOrd [exCreate] 5))) = 5"
  using notify_revision [of "revChecker exMonitor1" 0 exMonitor1 exParseKey exOrd "[exCreate]"]
    notify_revision [of "revChecker exMonitor1" 5 exMonitor1 exParseKey exOrd "[exCreate]"]
  by (simp add: exMonitor1_def exMonitor0_def)

subsection \<open>The example rows, decoded and projected\<close>

lemmas ex_defs = exRow1_def exRow2_def exRow3_def exRow4_def exRow5_def exRow6_def exKv_def exCreate_def exModify_def exDelete_def
  exParseKey_def exOrd_def exUpdater_def exSelect_def exSchema_def exColumn_def

lemmas codec_defs = prepareRow_def unmarshalData_def getAndDeleteUUID_def
  deleteUnselectedColumns_def COL_UUID_def asValues_def index_def

lemma exUpdater_simps:
  "Columns (mcr (exUpdater cs v1)) = cs"
  "MSIsTrue (SelectInitial (Select (mcr (exUpdater cs v1))))"
  "MSIsTrue (SelectInsert (Select (mcr (exUpdater cs v1))))"
  "MSIsTrue (SelectDelete (Select (mcr (exUpdater cs v1))))"
  "MSIsTrue (SelectModify (Select (mcr (exUpdater cs v1))))"
  "tableSchema (exUpdater cs v1) = exSchema"
  "isV1 (exUpdater cs v1) = v1"
  "jasonValueStr (exUpdater cs v1) = ''jsonValue1''"
  by (simp_all add: exUpdater_def exSelect_def MSIsTrue_def)

lemma exRow1_decoded:
  "prepareRow (exUpdater [''c3''] v1) (Some exRow1) = Inr (Map.empty, ''U1'')"
  "prepareRow (exUpdater [''c2''] v1) (Some exRow1) = Inr ([''c2'' \<mapsto> JStr ''v2''], ''U1'')"
  "prepareRow (exUpdater [] v1) (Some exRow1) =
     Inr ([''c1'' \<mapsto> JStr ''v1'', ''c2'' \<mapsto> JStr ''v2''], ''U1'')"
  "prepareRow (exUpdater [''_uuid'', ''c1''] v1) (Some exRow1) = Inr ([''c1'' \<mapsto> JStr ''v1''], ''U1'')"
  by (auto simp: ex_defs codec_defs fun_eq_iff)


lemma exRow3_decoded:
  "prepareRow (exUpdater [] v1) (Some exRow3) =
     Inr ([''c1'' \<mapsto> JStr ''v1'', ''c2'' \<mapsto> JStr ''v3''], ''U2'')"
  by (auto simp: ex_defs codec_defs fun_eq_iff)

lemma asValues_upd: "asValues (m(c \<mapsto> v)) = (asValues m)(c \<mapsto> JsonV v)"
  by (auto simp: asValues_def fun_eq_iff)

lemma asValues_empty: "asValues Map.empty = Map.empty"
  by (auto simp: asValues_def fun_eq_iff)

subsection \<open>Create and delete events\<close>

text \<open>
  C2, as the code has it. A create event that passes the \<open>Insert\<close> gate and whose
  projected row is empty emits no row update. A delete event that passes the \<open>Delete\<close>
  gate and whose pre-image passes the row codec (it decodes and holds a well-formed
  \<open>_uuid\<close>) emits \<open>{Delete: true}\<close> under v2/v3 whatever the projection holds, also the
  empty row; under v1 it emits \<open>{Old: projected pre-image}\<close> when the projection is not
  empty and nothing otherwise. When the pre-image does not pass the row codec, every
  variant returns the codec's error and emits no row update.
\<close>

theorem prepareRowUpdate_create_delete:
  "(Kv ev = Some kv \<and> IsCreate (EvType ev) kv \<and> MSIsTrue (SelectInsert (Select (mcr u))) \<and>
      prepareRow u (Value kv) = Inr (Map.empty, uuid)
    \<longrightarrow> prepareRowUpdate u ord ev = Inr (None, [])) \<and>
   (Kv ev = Some kv \<and> EvType ev = DELETE \<and> MSIsTrue (SelectDelete (Select (mcr u))) \<and>
      PrevKv ev = Some prevKv \<and> prepareRow u (Value prevKv) = Inr (data, uuid)
    \<longrightarrow> prepareRowUpdate u ord ev =
          (if \<not> isV1 u then Inr (Some (RowUpdate0\<lparr>Delete := True\<rparr>), uuid)
           else if data \<noteq> Map.empty then Inr (Some (RowUpdate0\<lparr>Old := Some (asValues data)\<rparr>), uuid)
           else Inr (None, uuid))) \<and>
   (Kv ev = Some kv \<and> EvType ev = DELETE \<and> MSIsTrue (SelectDelete (Select (mcr u))) \<and>
      PrevKv ev = Some prevKv \<and> prepareRow u (Value prevKv) = Inl err
    \<longrightarrow> prepareRowUpdate u ord ev = Inl err)"
  by (auto simp: prepareRowUpdate_def prepareCreateRowUpdate_def prepareDeleteRowUpdate_def
        IsCreate_def IsModify_def Let_def)

text \<open>
  The projection \<open>[c3]\<close> of the first example row is empty: no update on create, the
  delete flag under v2, nothing under v1; the projection \<open>[c2]\<close> under v1 gives \<open>Old\<close>.
\<close>

theorem prepareRowUpdate_create_delete_witness:
  "prepareRow (exUpdater [''c3''] False) (Some exRow1) = Inr (Map.empty, ''U1'') \<and>
   prepareRowUpdate (exUpdater [''c3''] False) exOrd exCreate = Inr (None, []) \<and>
   prepareRowUpdate (exUpdater [''c3''] False) exOrd exDelete =
     Inr (Some (RowUpdate0\<lparr>Delete := True\<rparr>), ''U1'') \<and>
   prepareRowUpdate (exUpdater [''c3''] True) exOrd exDelete = Inr (None, ''U1'') \<and>
   prepareRowUpdate (exUpdater [''c2''] True) exOrd exDelete =
     Inr (Some (RowUpdate0\<lparr>Old := Some [''c2'' \<mapsto> JsonV (JStr ''v2'')]\<rparr>), ''U1'')"
  using
    prepareRowUpdate_create_delete [where ev = exCreate and kv = "exKv (Some exRow1) 1 1"
      and u = "exUpdater [''c3''] False" and uuid = "''U1''" and ord = exOrd]
    prepareRowUpdate_create_delete [where ev = exDelete and kv = "exKv None 0 3"
      and prevKv = "exKv (Some exRow1) 1 2" and data = Map.empty
      and u = "exUpdater [''c3''] False" and uuid = "''U1''" and ord = exOrd]
    prepareRowUpdate_create_delete [where ev = exDelete and kv = "exKv None 0 3"
      and prevKv = "exKv (Some exRow1) 1 2" and data = Map.empty
      and u = "exUpdater [''c3''] True" and uuid = "''U1''" and ord = exOrd]
    prepareRowUpdate_create_delete [where ev = exDelete and kv = "exKv None 0 3"
      and prevKv = "exKv (Some exRow1) 1 2" and data = "[''c2'' \<mapsto> JStr ''v2'']"
      and u = "exUpdater [''c2''] True" and uuid = "''U1''" and ord = exOrd]
  by (simp add: exRow1_decoded asValues_upd asValues_empty exCreate_def exDelete_def exKv_def
        IsCreate_def exUpdater_simps)

text \<open>
  C2 as stated fails: a delete event passes the \<open>Delete\<close> gate of a v2 updater, and its
  pre-image is no JSON object, or lacks \<open>_uuid\<close>; the updater returns the error of the row
  codec and emits no \<open>{Delete: true}\<close>.
\<close>

theorem prepareRowUpdate_delete_undecodable_counterexample:
  "EvType exDeleteUndecodable = DELETE \<and> EvType exDeleteNoUUID = DELETE \<and>
   MSIsTrue (SelectDelete (Select (mcr (exUpdater [] False)))) \<and>
   isV1 (exUpdater [] False) = False \<and>
   prepareRowUpdate (exUpdater [] False) exOrd exDeleteUndecodable = Inl DecodeError \<and>
   prepareRowUpdate (exUpdater [] False) exOrd exDeleteNoUUID = Inl MissingUUID"
  by (simp add: prepareRowUpdate_def prepareDeleteRowUpdate_def exDeleteUndecodable_def
        exDeleteNoUUID_def exKv_def IsCreate_def IsModify_def exUpdater_simps codec_defs Let_def)

subsection \<open>A modify event that changes the UUID\<close>

text \<open>
  C9. A modify event that passes the \<open>Modify\<close> gate and whose pre-image and post-image
  decode to different UUIDs returns the error \<open>UUIDChanged\<close>; an error result carries no
  row update.
\<close>

theorem prepareRowUpdate_uuid_changed:
  assumes "Kv ev = Some kv" and "PrevKv ev = Some prevKv" and "IsModify (EvType ev) kv"
    and "MSIsTrue (SelectModify (Select (mcr u)))"
    and "prepareRow u (Value kv) = Inr (modifiedRow, uuid)"
    and "prepareRow u (Value prevKv) = Inr (prevRow, prevUUID)"
    and "uuid \<noteq> prevUUID"
  shows "prepareRowUpdate u ord ev = Inl (UUIDChanged prevUUID uuid)"
  using assms by (simp add: prepareRowUpdate_def prepareModifyRowUpdate_def)

theorem prepareRowUpdate_uuid_changed_witness:
  "prepareRow (exUpdater [] True) (Some exRow3) =
     Inr ([''c1'' \<mapsto> JStr ''v1'', ''c2'' \<mapsto> JStr ''v3''], ''U2'') \<and>
   prepareRow (exUpdater [] True) (Some exRow1) =
     Inr ([''c1'' \<mapsto> JStr ''v1'', ''c2'' \<mapsto> JStr ''v2''], ''U1'') \<and>
   prepareRowUpdate (exUpdater [] True) exOrd (exModify exRow1 exRow3) =
     Inl (UUIDChanged ''U1'' ''U2'')"
  using prepareRowUpdate_uuid_changed [where ev = "exModify exRow1 exRow3"
      and kv = "exKv (Some exRow3) 1 2" and prevKv = "exKv (Some exRow1) 1 1"
      and u = "exUpdater [] True" and uuid = "''U2''" and prevUUID = "''U1''" and ord = exOrd
      and modifiedRow = "[''c1'' \<mapsto> JStr ''v1'', ''c2'' \<mapsto> JStr ''v3'']"
      and prevRow = "[''c1'' \<mapsto> JStr ''v1'', ''c2'' \<mapsto> JStr ''v2'']"]
  by (simp add: exRow1_decoded exRow3_decoded exModify_def exKv_def IsModify_def
        exUpdater_simps)

subsection \<open>The UUID is never a column\<close>

lemma compareModifiedRows_Cons:
  "compareModifiedRows u (c # rest) modifiedRow prevRow d =
     (if columnChanged modifiedRow prevRow c
      then (case columnDelta u modifiedRow prevRow c of
              Inl err \<Rightarrow> (d, Some err)
            | Inr x \<Rightarrow> compareModifiedRows u rest modifiedRow prevRow (d(c \<mapsto> x)))
      else compareModifiedRows u rest modifiedRow prevRow d)"
  by (simp add: columnChanged_def columnDelta_def split: option.splits sum.splits)

lemma project_fold_sub:
  "fold (\<lambda>column newData. case data column of Some v \<Rightarrow> newData(column \<mapsto> v) | None \<Rightarrow> newData)
      cols acc c = Some v \<Longrightarrow> acc c = Some v \<or> data c = Some v"
proof (induction cols arbitrary: acc)
  case Nil
  then show ?case by simp
next
  case (Cons a cols)
  let ?acc = "case data a of Some v \<Rightarrow> acc(a \<mapsto> v) | None \<Rightarrow> acc"
  from Cons.prems have "fold (\<lambda>column newData. case data column of Some v \<Rightarrow> newData(column \<mapsto> v)
      | None \<Rightarrow> newData) cols ?acc c = Some v"
    by simp
  from Cons.IH [OF this] show ?case
    by (auto split: option.splits if_splits)
qed

lemma deleteUnselectedColumns_sub:
  "deleteUnselectedColumns u data c = Some v \<Longrightarrow> data c = Some v"
  by (auto simp: deleteUnselectedColumns_def dest: project_fold_sub split: if_splits)

lemma getAndDeleteUUID_Inr:
  assumes "getAndDeleteUUID obj = Inr (uuid, data)"
  shows "data = obj(COL_UUID := None) \<and> (\<exists>t. obj COL_UUID = Some (JArr [t, JStr uuid]))"
proof -
  from assms obtain js where js: "obj COL_UUID = Some (JArr js)" and len: "length js = 2"
    and snd: "js ! 1 = JStr uuid" and data: "data = obj(COL_UUID := None)"
    by (auto simp: getAndDeleteUUID_def Let_def split: option.splits json.splits if_splits)
  from len obtain t s where "js = [t, s]"
    by (cases js; cases "tl js") auto
  with snd js data show ?thesis by simp
qed

lemma prepareRow_Inr:
  assumes "prepareRow u v = Inr (data, uuid)"
  shows "data COL_UUID = None \<and> (\<exists>obj t. v = Some obj \<and> obj COL_UUID = Some (JArr [t, JStr uuid]))"
proof -
  from assms obtain obj data' where v: "v = Some obj"
    and g: "getAndDeleteUUID obj = Inr (uuid, data')"
    and d: "data = deleteUnselectedColumns u data'"
    by (auto simp: prepareRow_def unmarshalData_def split: option.splits sum.splits)
  from getAndDeleteUUID_Inr [OF g] have "data' COL_UUID = None"
    and t: "\<exists>t. obj COL_UUID = Some (JArr [t, JStr uuid])" by auto
  with d have "data COL_UUID = None"
    by (cases "data COL_UUID") (auto dest: deleteUnselectedColumns_sub)
  with v t show ?thesis by blast
qed

lemma compareModifiedRows_dom:
  "modifiedRow c = None \<Longrightarrow> deltaRow c = None \<Longrightarrow>
   fst (compareModifiedRows u cols modifiedRow prevRow deltaRow) c = None"
proof (induction cols arbitrary: deltaRow)
  case Nil
  then show ?case by simp
next
  case (Cons a cols)
  show ?case
  proof (cases "columnChanged modifiedRow prevRow a")
    case False
    with Cons show ?thesis by (simp only: compareModifiedRows_Cons if_False)
  next
    case True
    with Cons.prems have ne: "a \<noteq> c" by (auto simp: columnChanged_def)
    show ?thesis
    proof (cases "columnDelta u modifiedRow prevRow a")
      case (Inl err)
      with True Cons.prems show ?thesis by (simp add: compareModifiedRows_Cons del: compareModifiedRows.simps)
    next
      case (Inr x)
      from ne Cons.prems have h: "(deltaRow(a \<mapsto> x)) c = None" by simp
      from Cons.prems(1) h
      have ih: "fst (compareModifiedRows u cols modifiedRow prevRow (deltaRow(a \<mapsto> x))) c = None"
        by (rule Cons.IH)
      from True Inr
      have step: "compareModifiedRows u (a # cols) modifiedRow prevRow deltaRow =
          compareModifiedRows u cols modifiedRow prevRow (deltaRow(a \<mapsto> x))"
        by (simp only: compareModifiedRows_Cons if_True sum.case)
      show ?thesis by (simp only: step ih)
    qed
  qed
qed

lemma asValues_None: "data c = None \<Longrightarrow> asValues data c = None"
  by (simp add: asValues_def)

lemma create_no_uuid:
  assumes "prepareCreateRowUpdate u ev = Inr (Some ru, uuid)"
  shows "(\<forall>cols \<in> columnMaps ru. cols COL_UUID = None) \<and>
         (\<exists>kv obj t. Kv ev = Some kv \<and> Value kv = Some obj \<and>
                     obj COL_UUID = Some (JArr [t, JStr uuid]))"
  using assms
  by (auto simp: prepareCreateRowUpdate_def columnMaps_def RowUpdate0_def asValues_None
           split: if_splits option.splits sum.splits
           dest!: prepareRow_Inr)

lemma delete_no_uuid:
  assumes "prepareDeleteRowUpdate u ev = Inr (Some ru, uuid)"
  shows "(\<forall>cols \<in> columnMaps ru. cols COL_UUID = None) \<and>
         (\<exists>kv obj t. PrevKv ev = Some kv \<and> Value kv = Some obj \<and>
                     obj COL_UUID = Some (JArr [t, JStr uuid]))"
  using assms
  by (auto simp: prepareDeleteRowUpdate_def columnMaps_def RowUpdate0_def Let_def asValues_None
           split: if_splits option.splits sum.splits
           dest!: prepareRow_Inr)

lemma initial_no_uuid:
  assumes "prepareCreateRowInitial u v = Inr (Some ru, uuid)"
  shows "(\<forall>cols \<in> columnMaps ru. cols COL_UUID = None) \<and>
         (\<exists>obj t. v = Some obj \<and> obj COL_UUID = Some (JArr [t, JStr uuid]))"
  using assms
  by (auto simp: prepareCreateRowInitial_def columnMaps_def RowUpdate0_def asValues_None
           split: if_splits option.splits sum.splits
           dest!: prepareRow_Inr)

lemma modify_no_uuid:
  assumes "prepareModifyRowUpdate u ord ev = Inr (Some ru, uuid)"
  shows "(\<forall>cols \<in> columnMaps ru. cols COL_UUID = None) \<and>
         (\<exists>kv obj t. Kv ev = Some kv \<and> Value kv = Some obj \<and>
                     obj COL_UUID = Some (JArr [t, JStr uuid]))"
proof -
  from assms obtain kv modifiedRow prevRow where kv: "Kv ev = Some kv"
    and post: "prepareRow u (Value kv) = Inr (modifiedRow, uuid)"
    and ru: "ru = RowUpdate0\<lparr>Modify := Some (fst (compareModifiedRows u (ord modifiedRow)
                 modifiedRow prevRow Map.empty))\<rparr> \<or>
             ru = RowUpdate0\<lparr>New := Some (asValues modifiedRow),
                   Old := Some (fst (compareModifiedRows u (ord modifiedRow)
                 modifiedRow prevRow Map.empty))\<rparr>"
    by (force simp: prepareModifyRowUpdate_def Let_def
           split: if_splits option.splits sum.splits)
  from prepareRow_Inr [OF post] have none: "modifiedRow COL_UUID = None"
    and src: "\<exists>obj t. Value kv = Some obj \<and> obj COL_UUID = Some (JArr [t, JStr uuid])"
    by auto
  have delta: "fst (compareModifiedRows u (ord modifiedRow) modifiedRow prevRow Map.empty)
      COL_UUID = None"
    using none by (simp add: compareModifiedRows_dom)
  from ru none delta have "\<forall>cols \<in> columnMaps ru. cols COL_UUID = None"
    by (auto simp: columnMaps_def RowUpdate0_def asValues_None)
  with kv src show ?thesis by blast
qed

text \<open>
  C8. Whenever \<^verbatim>\<open>prepareRowUpdate\<close> or \<^verbatim>\<open>prepareCreateRowInitial\<close> emits a row update,
  for any updater (any protocol variant, any projection, also one that lists \<open>_uuid\<close>) and
  any event, none of its column maps (\<open>New\<close>, \<open>Old\<close>, \<open>Initial\<close>, \<open>Insert\<close>, \<open>Modify\<close>) has
  the key \<open>_uuid\<close>; the UUID returned beside the row update is the string of the
  \<open>_uuid\<close> field of the decoded payload.
\<close>

theorem uuid_never_a_column:
  "(prepareRowUpdate u ord ev = Inr (Some ru, uuid) \<longrightarrow>
      (\<forall>cols \<in> columnMaps ru. COL_UUID \<notin> dom cols) \<and>
      (\<exists>kv obj t. (Kv ev = Some kv \<or> PrevKv ev = Some kv) \<and> Value kv = Some obj \<and>
                  obj COL_UUID = Some (JArr [t, JStr uuid]))) \<and>
   (prepareCreateRowInitial u v = Inr (Some ru', uuid') \<longrightarrow>
      (\<forall>cols \<in> columnMaps ru'. COL_UUID \<notin> dom cols) \<and>
      (\<exists>obj t. v = Some obj \<and> obj COL_UUID = Some (JArr [t, JStr uuid'])))"
proof (intro conjI impI)
  assume run: "prepareRowUpdate u ord ev = Inr (Some ru, uuid)"
  then consider "prepareCreateRowUpdate u ev = Inr (Some ru, uuid)"
    | "prepareDeleteRowUpdate u ev = Inr (Some ru, uuid)"
    | "prepareModifyRowUpdate u ord ev = Inr (Some ru, uuid)"
    by (auto simp: prepareRowUpdate_def split: option.splits if_splits)
  then have both: "(\<forall>cols \<in> columnMaps ru. cols COL_UUID = None) \<and>
      (\<exists>kv obj t. (Kv ev = Some kv \<or> PrevKv ev = Some kv) \<and> Value kv = Some obj \<and>
                  obj COL_UUID = Some (JArr [t, JStr uuid]))"
  proof cases
    case 1
    from create_no_uuid [OF 1] show ?thesis by blast
  next
    case 2
    from delete_no_uuid [OF 2] show ?thesis by blast
  next
    case 3
    from modify_no_uuid [OF 3] show ?thesis by blast
  qed
  from both show "\<forall>cols \<in> columnMaps ru. COL_UUID \<notin> dom cols" by (simp add: dom_def)
  from both show "\<exists>kv obj t. (Kv ev = Some kv \<or> PrevKv ev = Some kv) \<and> Value kv = Some obj \<and>
                  obj COL_UUID = Some (JArr [t, JStr uuid])" by blast
next
  assume run: "prepareCreateRowInitial u v = Inr (Some ru', uuid')"
  from initial_no_uuid [OF run]
  show "\<forall>cols \<in> columnMaps ru'. COL_UUID \<notin> dom cols" by (simp add: dom_def)
  from initial_no_uuid [OF run]
  show "\<exists>obj t. v = Some obj \<and> obj COL_UUID = Some (JArr [t, JStr uuid'])" by blast
qed

text \<open>A projection that lists \<open>_uuid\<close>, on a create event and on an initial row.\<close>

theorem uuid_never_a_column_witness:
  "prepareRowUpdate (exUpdater [''_uuid'', ''c1''] True) exOrd exCreate =
     Inr (Some (RowUpdate0\<lparr>New := Some [''c1'' \<mapsto> JsonV (JStr ''v1'')]\<rparr>), ''U1'') \<and>
   prepareCreateRowInitial (exUpdater [''_uuid'', ''c1''] False) (Some exRow1) =
     Inr (Some (RowUpdate0\<lparr>Initial := Some [''c1'' \<mapsto> JsonV (JStr ''v1'')]\<rparr>), ''U1'') \<and>
   columnMaps (RowUpdate0\<lparr>New := Some [''c1'' \<mapsto> JsonV (JStr ''v1'')]\<rparr>) =
     {[''c1'' \<mapsto> JsonV (JStr ''v1'')]} \<and>
   COL_UUID \<notin> dom [''c1'' \<mapsto> JsonV (JStr ''v1'')]"
proof -
  have run: "prepareRowUpdate (exUpdater [''_uuid'', ''c1''] True) exOrd exCreate =
      Inr (Some (RowUpdate0\<lparr>New := Some [''c1'' \<mapsto> JsonV (JStr ''v1'')]\<rparr>), ''U1'')"
    by (simp add: prepareRowUpdate_def prepareCreateRowUpdate_def exCreate_def exKv_def
          IsCreate_def IsModify_def exUpdater_simps exRow1_decoded asValues_upd asValues_empty)
  have ini: "prepareCreateRowInitial (exUpdater [''_uuid'', ''c1''] False) (Some exRow1) =
      Inr (Some (RowUpdate0\<lparr>Initial := Some [''c1'' \<mapsto> JsonV (JStr ''v1'')]\<rparr>), ''U1'')"
    by (simp add: prepareCreateRowInitial_def exUpdater_simps exRow1_decoded asValues_upd
          asValues_empty)
  have maps: "columnMaps (RowUpdate0\<lparr>New := Some [''c1'' \<mapsto> JsonV (JStr ''v1'')]\<rparr>) =
      {[''c1'' \<mapsto> JsonV (JStr ''v1'')]}"
    by (simp add: columnMaps_def RowUpdate0_def)
  from uuid_never_a_column [where u = "exUpdater [''_uuid'', ''c1''] True" and ord = exOrd
      and ev = exCreate and uuid = "''U1''"
      and ru = "RowUpdate0\<lparr>New := Some [''c1'' \<mapsto> JsonV (JStr ''v1'')]\<rparr>"] run maps
  have "COL_UUID \<notin> dom [''c1'' \<mapsto> JsonV (JStr ''v1'')]"
    by simp
  with run ini maps show ?thesis by simp
qed

subsection \<open>The row delta of a modify event\<close>

lemma rowDelta_insert_unchanged:
  "\<not> columnChanged modifiedRow prevRow a \<Longrightarrow>
   rowDelta u modifiedRow prevRow (insert a S) = rowDelta u modifiedRow prevRow S"
  by (auto simp: rowDelta_def fun_eq_iff)

lemma rowDelta_insert_changed:
  "columnChanged modifiedRow prevRow a \<Longrightarrow> columnDelta u modifiedRow prevRow a = Inr x \<Longrightarrow>
   d(a \<mapsto> x) ++ rowDelta u modifiedRow prevRow S = d ++ rowDelta u modifiedRow prevRow (insert a S)"
  by (auto simp: rowDelta_def fun_eq_iff map_add_def split: option.splits sum.splits)

lemma compareModifiedRows_no_error:
  "\<forall>c \<in> set cols. columnChanged modifiedRow prevRow c \<longrightarrow>
      (\<exists>x. columnDelta u modifiedRow prevRow c = Inr x) \<Longrightarrow>
   compareModifiedRows u cols modifiedRow prevRow d =
     (d ++ rowDelta u modifiedRow prevRow (set cols), None)"
proof (induction cols arbitrary: d)
  case Nil
  have "rowDelta u modifiedRow prevRow {} = Map.empty"
    by (simp add: rowDelta_def)
  then show ?case by simp
next
  case (Cons a cols)
  from Cons.prems
  have rest: "\<forall>c \<in> set cols. columnChanged modifiedRow prevRow c \<longrightarrow>
      (\<exists>x. columnDelta u modifiedRow prevRow c = Inr x)"
    by simp
  show ?case
  proof (cases "columnChanged modifiedRow prevRow a")
    case False
    then have "compareModifiedRows u (a # cols) modifiedRow prevRow d =
        compareModifiedRows u cols modifiedRow prevRow d"
      by (simp only: compareModifiedRows_Cons if_False)
    then show ?thesis
      by (simp only: Cons.IH [OF rest] list.set rowDelta_insert_unchanged [OF False])
  next
    case True
    with Cons.prems obtain x where x: "columnDelta u modifiedRow prevRow a = Inr x"
      by auto
    from True x have "compareModifiedRows u (a # cols) modifiedRow prevRow d =
        compareModifiedRows u cols modifiedRow prevRow (d(a \<mapsto> x))"
      by (simp only: compareModifiedRows_Cons if_True sum.case)
    then show ?thesis
      by (simp only: Cons.IH [OF rest] list.set rowDelta_insert_changed [OF True x])
  qed
qed

lemma compareModifiedRows_append:
  "compareModifiedRows u (xs @ ys) modifiedRow prevRow d =
     (case compareModifiedRows u xs modifiedRow prevRow d of
        (d', None) \<Rightarrow> compareModifiedRows u ys modifiedRow prevRow d'
      | (d', Some err) \<Rightarrow> (d', Some err))"
proof (induction xs arbitrary: d)
  case Nil
  then show ?case by simp
next
  case (Cons a xs)
  show ?case
  proof (cases "columnChanged modifiedRow prevRow a")
    case False
    then show ?thesis
      by (simp only: append_Cons compareModifiedRows_Cons if_False Cons.IH)
  next
    case True
    show ?thesis
    proof (cases "columnDelta u modifiedRow prevRow a")
      case (Inl err)
      with True show ?thesis
        by (simp only: append_Cons compareModifiedRows_Cons if_True sum.case prod.case
              option.case)
    next
      case (Inr x)
      with True show ?thesis
        by (simp only: append_Cons compareModifiedRows_Cons if_True sum.case Cons.IH)
    qed
  qed
qed

text \<open>
  The loop stops at the first changed column whose delta fails (a column the schema does not
  know, or a map or set that does not decode): it returns the error and leaves the delta of
  the columns visited before.
\<close>

lemma compareModifiedRows_stops:
  assumes before: "\<forall>c \<in> set xs. columnChanged modifiedRow prevRow c \<longrightarrow>
      (\<exists>x. columnDelta u modifiedRow prevRow c = Inr x)"
    and changed: "columnChanged modifiedRow prevRow c"
    and fails: "columnDelta u modifiedRow prevRow c = Inl err"
  shows "compareModifiedRows u (xs @ c # ys) modifiedRow prevRow Map.empty =
           (rowDelta u modifiedRow prevRow (set xs), Some err)"
proof -
  have "compareModifiedRows u (c # ys) modifiedRow prevRow (rowDelta u modifiedRow prevRow (set xs)) =
      (rowDelta u modifiedRow prevRow (set xs), Some err)"
    using changed fails by (simp only: compareModifiedRows_Cons if_True sum.case)
  then show ?thesis
    by (simp add: compareModifiedRows_append compareModifiedRows_no_error [OF before]
          del: compareModifiedRows.simps)
qed



lemma exSchema_lookup:
  "LookupColumn exSchema ''c1'' = Inr (exColumn TypeString)"
  "LookupColumn exSchema ''c2'' = Inr (exColumn TypeString)"
  "LookupColumn exSchema ''c9'' = Inl (SchemaLookupError ''c9'')"
  "Type (exColumn t) = t"
  by (simp_all add: LookupColumn_def exSchema_def exColumn_def)


lemma exModify_simps:
  "Kv (exModify pre post) = Some (exKv (Some post) 1 2)"
  "PrevKv (exModify pre post) = Some (exKv (Some pre) 1 1)"
  "IsModify (EvType (exModify pre post)) (exKv (Some post) 1 2)"
  "Value (exKv v a b) = v"
  by (simp_all add: exModify_def exKv_def IsModify_def)






lemma exRow56_decoded:
  "prepareRow (exUpdater [] v1) (Some exRow5) =
     Inr ([''c1'' \<mapsto> JStr ''v1'', ''c9'' \<mapsto> JStr ''x''], ''U1'')"
  "prepareRow (exUpdater [] v1) (Some exRow6) =
     Inr ([''c1'' \<mapsto> JStr ''v2'', ''c9'' \<mapsto> JStr ''y''], ''U1'')"
  by (auto simp: ex_defs codec_defs fun_eq_iff)


subsection \<open>A changed column that the schema does not know\<close>

text \<open>
  C4. The schema knows \<open>c1\<close> and not \<open>c9\<close>; a modify event changes both. When the loop
  visits \<open>c9\<close> first, \<^verbatim>\<open>compareModifiedRows\<close> returns the lookup error at once with an
  empty delta: \<open>c1\<close> is never compared, and the updater, which drops the error, emits no
  row update. When the loop visits \<open>c1\<close> first, the row update carries \<open>c1\<close>. So the
  emitted delta is not the delta over the columns the schema knows, and it depends on the
  order in which Go ranges over the row.
\<close>

theorem compareModifiedRows_stops_at_unknown_column:
  "tableSchema (exUpdater [] False) ''c9'' = None \<and>
   tableSchema (exUpdater [] False) ''c1'' = Some (exColumn TypeString) \<and>
   prepareRow (exUpdater [] False) (Some exRow5) =
     Inr ([''c1'' \<mapsto> JStr ''v1'', ''c9'' \<mapsto> JStr ''x''], ''U1'') \<and>
   prepareRow (exUpdater [] False) (Some exRow6) =
     Inr ([''c1'' \<mapsto> JStr ''v2'', ''c9'' \<mapsto> JStr ''y''], ''U1'') \<and>
   exOrdRev [''c1'' \<mapsto> JStr ''v2'', ''c9'' \<mapsto> JStr ''y''] = [''c9'', ''c1''] \<and>
   compareModifiedRows (exUpdater [] False) [''c9'', ''c1'']
       [''c1'' \<mapsto> JStr ''v2'', ''c9'' \<mapsto> JStr ''y'']
       [''c1'' \<mapsto> JStr ''v1'', ''c9'' \<mapsto> JStr ''x''] Map.empty =
     (Map.empty, Some (SchemaLookupError ''c9'')) \<and>
   prepareRowUpdate (exUpdater [] False) exOrdRev (exModify exRow5 exRow6) = Inr (None, []) \<and>
   prepareRowUpdate (exUpdater [] False) exOrd (exModify exRow5 exRow6) =
     Inr (Some (RowUpdate0\<lparr>Modify := Some [''c1'' \<mapsto> JsonV (JStr ''v2'')]\<rparr>), ''U1'')"
proof -
  have schema: "tableSchema (exUpdater [] False) ''c9'' = None"
    "tableSchema (exUpdater [] False) ''c1'' = Some (exColumn TypeString)"
    by (simp_all add: exUpdater_simps exSchema_def)
  have rev: "exOrdRev [''c1'' \<mapsto> JStr ''v2'', ''c9'' \<mapsto> JStr ''y''] = [''c9'', ''c1'']"
    and fwd: "exOrd [''c1'' \<mapsto> JStr ''v2'', ''c9'' \<mapsto> JStr ''y''] = [''c1'', ''c9'']"
    by (simp_all add: exOrdRev_def exOrd_def)
  have stop: "compareModifiedRows (exUpdater [] False) [''c9'', ''c1'']
       [''c1'' \<mapsto> JStr ''v2'', ''c9'' \<mapsto> JStr ''y'']
       [''c1'' \<mapsto> JStr ''v1'', ''c9'' \<mapsto> JStr ''x''] Map.empty =
     (Map.empty, Some (SchemaLookupError ''c9''))"
    by (simp add: exUpdater_simps exSchema_lookup index_def)
  have go: "compareModifiedRows (exUpdater [] False) [''c1'', ''c9'']
       [''c1'' \<mapsto> JStr ''v2'', ''c9'' \<mapsto> JStr ''y'']
       [''c1'' \<mapsto> JStr ''v1'', ''c9'' \<mapsto> JStr ''x''] Map.empty =
     ([''c1'' \<mapsto> JsonV (JStr ''v2'')], Some (SchemaLookupError ''c9''))"
    by (simp add: exUpdater_simps exSchema_lookup index_def)
  have r1: "prepareRowUpdate (exUpdater [] False) exOrdRev (exModify exRow5 exRow6) = Inr (None, [])"
    by (simp add: prepareRowUpdate_def prepareModifyRowUpdate_def exModify_simps exUpdater_simps
          exRow56_decoded rev stop Let_def del: compareModifiedRows.simps)
  have r2: "prepareRowUpdate (exUpdater [] False) exOrd (exModify exRow5 exRow6) =
     Inr (Some (RowUpdate0\<lparr>Modify := Some [''c1'' \<mapsto> JsonV (JStr ''v2'')]\<rparr>), ''U1'')"
    by (simp add: prepareRowUpdate_def prepareModifyRowUpdate_def exModify_simps exUpdater_simps
          exRow56_decoded fwd go Let_def del: compareModifiedRows.simps)
  from schema rev stop r1 r2 show ?thesis
    by (simp only: exRow56_decoded simp_thms)
qed

subsection \<open>Map and set columns through the updater\<close>

text \<open>
  Scenarios 5 and 6 of the specification, run through \<^verbatim>\<open>prepareRowUpdate\<close>: a map column
  under v2 and a set column under v1.
\<close>

lemma prepareRowUpdate_map_column:
  "prepareRowUpdate (exUpdater [] False) exOrd
     (exModify [''_uuid'' \<mapsto> JArr [JStr ''uuid'', JStr ''U1''], ''m'' \<mapsto> exMapPrev]
               [''_uuid'' \<mapsto> JArr [JStr ''uuid'', JStr ''U1''], ''m'' \<mapsto> exMapPost]) =
   Inr (Some (RowUpdate0\<lparr>Modify :=
          Some [''m'' \<mapsto> OvsMapV [AStr ''b'' \<mapsto> AReal 3, AStr ''c'' \<mapsto> AReal 4]]\<rparr>), ''U1'')"
proof -
  have dec: "prepareRow (exUpdater [] False)
        (Some [''_uuid'' \<mapsto> JArr [JStr ''uuid'', JStr ''U1''], ''m'' \<mapsto> j]) =
      Inr ([''m'' \<mapsto> j], ''U1'')" for j
    by (auto simp: codec_defs exUpdater_simps fun_eq_iff)
  have ne: "exMapPost \<noteq> exMapPrev" by (simp add: exMapPost_def exMapPrev_def)
  have cm: "compareMaps (exUpdater [] False) exMapPost exMapPrev (exColumn TypeMap) =
      Inr [AStr ''b'' \<mapsto> AReal 3, AStr ''c'' \<mapsto> AReal 4]"
    by (auto simp: compareMaps_def exColumn_def exUnmarshalMap_def exMapPost_def exMapPrev_def
          exPair_def fun_eq_iff)
  have lk: "LookupColumn exSchema ''m'' = Inr (exColumn TypeMap)"
    by (simp add: LookupColumn_def exSchema_def)
  have cmr: "compareModifiedRows (exUpdater [] False) [''m''] [''m'' \<mapsto> exMapPost]
      [''m'' \<mapsto> exMapPrev] Map.empty =
      ([''m'' \<mapsto> OvsMapV [AStr ''b'' \<mapsto> AReal 3, AStr ''c'' \<mapsto> AReal 4]], None)"
    using ne by (simp add: index_def exUpdater_simps lk cm exSchema_lookup(4))
  show ?thesis
    by (simp add: prepareRowUpdate_def prepareModifyRowUpdate_def exModify_simps exUpdater_simps
          dec exOrd_def cmr Let_def del: compareModifiedRows.simps)
qed

lemma prepareRowUpdate_set_column:
  "prepareRowUpdate (exUpdater [] True) exOrd
     (exModify [''_uuid'' \<mapsto> JArr [JStr ''uuid'', JStr ''U1''], ''s'' \<mapsto> exSetPrev]
               [''_uuid'' \<mapsto> JArr [JStr ''uuid'', JStr ''U1''], ''s'' \<mapsto> exSetPost]) =
   Inr (Some (RowUpdate0\<lparr>New := Some [''s'' \<mapsto> JsonV exSetPost],
          Old := Some [''s'' \<mapsto> OvsSetV [AReal 4, AReal 1]]\<rparr>), ''U1'')"
proof -
  have dec: "prepareRow (exUpdater [] True)
        (Some [''_uuid'' \<mapsto> JArr [JStr ''uuid'', JStr ''U1''], ''s'' \<mapsto> j]) =
      Inr ([''s'' \<mapsto> j], ''U1'')" for j
    by (auto simp: codec_defs exUpdater_simps fun_eq_iff)
  have ne: "exSetPost \<noteq> exSetPrev" by (simp add: exSetPost_def exSetPrev_def)
  have cs: "compareSets (exUpdater [] True) exSetPost exSetPrev (exColumn TypeSet) =
      Inr [AReal 4, AReal 1]"
    by (simp add: compareSets_def exColumn_def exUnmarshalSet_def exSetPost_def exSetPrev_def
          setsDifference_def)
  have lk: "LookupColumn exSchema ''s'' = Inr (exColumn TypeSet)"
    by (simp add: LookupColumn_def exSchema_def)
  have cmr: "compareModifiedRows (exUpdater [] True) [''s''] [''s'' \<mapsto> exSetPost]
      [''s'' \<mapsto> exSetPrev] Map.empty = ([''s'' \<mapsto> OvsSetV [AReal 4, AReal 1]], None)"
    using ne by (simp add: index_def exUpdater_simps lk cs exSchema_lookup(4))
  show ?thesis
    by (simp add: prepareRowUpdate_def prepareModifyRowUpdate_def exModify_simps exUpdater_simps
          dec exOrd_def cmr asValues_upd asValues_empty Let_def del: compareModifiedRows.simps)
qed

end
